theory Spec2Isabelle
  imports Complex_Main "HOL-Library.Word"
begin

unbundle bit_operations_syntax

section \<open>JavaScript values\<close>

text \<open>
  The server is \<^verbatim>\<open>src/index.js\<close>, an Express application. A JavaScript string is a
  \<^typ>\<open>string\<close> (a list of 8-bit characters, read as the UTF-8 bytes of the text), a value
  that may be \<^verbatim>\<open>undefined\<close> or \<^verbatim>\<open>null\<close> is an option, and the numbers of the program
  (epoch milliseconds, seconds, byte counts) are integers: they stay far below \<open>2^53\<close>,
  where the doubles of JavaScript are exact.
\<close>

type_synonym byte = "8 word"
type_synonym bytes = "byte list"

text \<open>\<^verbatim>\<open>if (v)\<close> on a string that may be missing: \<^verbatim>\<open>undefined\<close> and \<^verbatim>\<open>''\<close> are falsy.\<close>

definition truthy :: "string option \<Rightarrow> bool" where
  "truthy v = (case v of None \<Rightarrow> False | Some s \<Rightarrow> s \<noteq> [])"

text \<open>A value inside a template literal: \<^verbatim>\<open>`${v}`\<close>.\<close>

definition template :: "string option \<Rightarrow> string" where
  "template v = (case v of None \<Rightarrow> ''undefined'' | Some s \<Rightarrow> s)"

text \<open>A number inside a template literal, in decimal.\<close>

function dec :: "nat \<Rightarrow> string" where
  "dec n = (if n < 10 then [''0123456789'' ! n]
            else dec (n div 10) @ [''0123456789'' ! (n mod 10)])"
  by pat_completeness auto
termination
  by (relation "measure id") auto

declare dec.simps [simp del]

definition show_number :: "int \<Rightarrow> string" where
  "show_number i = (if i < 0 then CHR ''-'' # dec (nat (- i)) else dec (nat i))"

text \<open>\<^verbatim>\<open>Array.prototype.join\<close>.\<close>

fun join :: "string \<Rightarrow> string list \<Rightarrow> string" where
  "join sep [] = []"
| "join sep [x] = x"
| "join sep (x # y # ys) = x @ sep @ join sep (y # ys)"

text \<open>\<^verbatim>\<open>String.prototype.charAt\<close>: the empty string outside the string.\<close>

definition charAt :: "string \<Rightarrow> int \<Rightarrow> string" where
  "charAt s i = (if 0 \<le> i \<and> i < int (length s) then [s ! nat i] else [])"

text \<open>JSON bodies, as the platform sends them and as \<^verbatim>\<open>res.json\<close> sends them.\<close>

datatype json =
    JNull
  | JBool bool
  | JNum int
  | JStr string
  | JArr "json list"
  | JObj "(string \<times> json) list"

definition json_truthy :: "json \<Rightarrow> bool" where
  "json_truthy j =
     (case j of JNull \<Rightarrow> False | JBool b \<Rightarrow> b | JNum n \<Rightarrow> n \<noteq> 0 | JStr s \<Rightarrow> s \<noteq> []
      | JArr _ \<Rightarrow> True | JObj _ \<Rightarrow> True)"

text \<open>
  An exception. \<^verbatim>\<open>new Error(msg)\<close> has a message only; an error of \<^verbatim>\<open>axios\<close> may carry the
  body of the platform's response, \<^verbatim>\<open>err.response.data\<close>.
\<close>

record js_error =
  response_data :: "json option"
  message :: string

definition Error :: "string \<Rightarrow> js_error" where
  "Error msg = \<lparr>response_data = None, message = msg\<rparr>"

text \<open>\<^verbatim>\<open>err.response?.data || err.message\<close>\<close>

definition error_details :: "js_error \<Rightarrow> json" where
  "error_details err =
     (case response_data err of
        None \<Rightarrow> JStr (message err)
      | Some d \<Rightarrow> if json_truthy d then d else JStr (message err))"

section \<open>SHA-256 and its hexadecimal digest\<close>

text \<open>
  \<^verbatim>\<open>crypto.createHash('sha256').update(verifier).digest('hex')\<close> is Node's library; it is
  modelled by the algorithm of FIPS 180-4 on 32-bit words.
\<close>

definition rotr :: "nat \<Rightarrow> 32 word \<Rightarrow> 32 word" where
  "rotr n x = drop_bit n x OR push_bit (32 - n) x"

definition Ch :: "32 word \<Rightarrow> 32 word \<Rightarrow> 32 word \<Rightarrow> 32 word" where
  "Ch x y z = (x AND y) XOR (NOT x AND z)"

definition Maj :: "32 word \<Rightarrow> 32 word \<Rightarrow> 32 word \<Rightarrow> 32 word" where
  "Maj x y z = (x AND y) XOR (x AND z) XOR (y AND z)"

definition Sigma0 :: "32 word \<Rightarrow> 32 word" where
  "Sigma0 x = rotr 2 x XOR rotr 13 x XOR rotr 22 x"

definition Sigma1 :: "32 word \<Rightarrow> 32 word" where
  "Sigma1 x = rotr 6 x XOR rotr 11 x XOR rotr 25 x"

definition sigma0 :: "32 word \<Rightarrow> 32 word" where
  "sigma0 x = rotr 7 x XOR rotr 18 x XOR drop_bit 3 x"

definition sigma1 :: "32 word \<Rightarrow> 32 word" where
  "sigma1 x = rotr 17 x XOR rotr 19 x XOR drop_bit 10 x"

text \<open>The round constants, eight to a row.\<close>

definition K256 :: "32 word list" where
  "K256 =
       [0x428a2f98, 0x71374491, 0xb5c0fbcf, 0xe9b5dba5, 0x3956c25b, 0x59f111f1, 0x923f82a4, 0xab1c5ed5]
     @ [0xd807aa98, 0x12835b01, 0x243185be, 0x550c7dc3, 0x72be5d74, 0x80deb1fe, 0x9bdc06a7, 0xc19bf174]
     @ [0xe49b69c1, 0xefbe4786, 0x0fc19dc6, 0x240ca1cc, 0x2de92c6f, 0x4a7484aa, 0x5cb0a9dc, 0x76f988da]
     @ [0x983e5152, 0xa831c66d, 0xb00327c8, 0xbf597fc7, 0xc6e00bf3, 0xd5a79147, 0x06ca6351, 0x14292967]
     @ [0x27b70a85, 0x2e1b2138, 0x4d2c6dfc, 0x53380d13, 0x650a7354, 0x766a0abb, 0x81c2c92e, 0x92722c85]
     @ [0xa2bfe8a1, 0xa81a664b, 0xc24b8b70, 0xc76c51a3, 0xd192e819, 0xd6990624, 0xf40e3585, 0x106aa070]
     @ [0x19a4c116, 0x1e376c08, 0x2748774c, 0x34b0bcb5, 0x391c0cb3, 0x4ed8aa4a, 0x5b9cca4f, 0x682e6ff3]
     @ [0x748f82ee, 0x78a5636f, 0x84c87814, 0x8cc70208, 0x90befffa, 0xa4506ceb, 0xbef9a3f7, 0xc67178f2]"

type_synonym hstate =
  "32 word \<times> 32 word \<times> 32 word \<times> 32 word \<times> 32 word \<times> 32 word \<times> 32 word \<times> 32 word"

definition H256 :: hstate where
  "H256 = (0x6a09e667, 0xbb67ae85, 0x3c6ef372, 0xa54ff53a,
           0x510e527f, 0x9b05688c, 0x1f83d9ab, 0x5be0cd19)"

definition be32 :: "32 word \<Rightarrow> bytes" where
  "be32 w = [ucast (drop_bit 24 w), ucast (drop_bit 16 w), ucast (drop_bit 8 w), ucast w]"

definition be64 :: "64 word \<Rightarrow> bytes" where
  "be64 w = be32 (ucast (drop_bit 32 w)) @ be32 (ucast w)"

text \<open>Padding: the byte 0x80, zeros up to 56 modulo 64, the bit length on 8 bytes.\<close>

definition pad :: "bytes \<Rightarrow> bytes" where
  "pad m = m @ [0x80] @ replicate ((119 - length m mod 64) mod 64) 0
             @ be64 (of_nat (8 * length m))"

fun be_words :: "bytes \<Rightarrow> 32 word list" where
  "be_words (a # b # c # d # rest) =
     (push_bit 24 (ucast a) OR push_bit 16 (ucast b) OR push_bit 8 (ucast c) OR ucast d)
       # be_words rest"
| "be_words _ = []"

fun schedule :: "nat \<Rightarrow> 32 word list \<Rightarrow> 32 word list" where
  "schedule 0 w = w"
| "schedule (Suc n) w =
     schedule n (w @ [sigma1 (w ! (length w - 2)) + w ! (length w - 7)
                      + sigma0 (w ! (length w - 15)) + w ! (length w - 16)])"

definition round256 :: "hstate \<Rightarrow> 32 word \<times> 32 word \<Rightarrow> hstate" where
  "round256 s kw = (case s of (a, b, c, d, e, f, g, h) \<Rightarrow>
     (let t1 = h + Sigma1 e + Ch e f g + fst kw + snd kw;
          t2 = Sigma0 a + Maj a b c
      in (t1 + t2, a, b, c, d + t1, e, f, g)))"

definition add_state :: "hstate \<Rightarrow> hstate \<Rightarrow> hstate" where
  "add_state s t =
     (case s of (a, b, c, d, e, f, g, h) \<Rightarrow>
        case t of (a', b', c', d', e', f', g', h') \<Rightarrow>
          (a + a', b + b', c + c', d + d', e + e', f + f', g + g', h + h'))"

definition compress :: "hstate \<Rightarrow> bytes \<Rightarrow> hstate" where
  "compress s block = add_state s (foldl round256 s (zip K256 (schedule 48 (be_words block))))"

function blocks :: "bytes \<Rightarrow> bytes list" where
  "blocks m = (if length m < 64 then [] else take 64 m # blocks (drop 64 m))"
  by pat_completeness auto
termination
  by (relation "measure length") auto

declare blocks.simps [simp del]

definition digest_bytes :: "hstate \<Rightarrow> bytes" where
  "digest_bytes s = (case s of (a, b, c, d, e, f, g, h) \<Rightarrow>
     concat (map be32 [a, b, c, d, e, f, g, h]))"

definition sha256 :: "bytes \<Rightarrow> bytes" where
  "sha256 m = digest_bytes (foldl compress H256 (blocks (pad m)))"

text \<open>\<^verbatim>\<open>update(string)\<close> feeds the bytes of the string to the hash.\<close>

definition update :: "string \<Rightarrow> bytes" where
  "update s = map (\<lambda>c. of_nat (of_char c)) s"

definition hex_digit :: "nat \<Rightarrow> char" where
  "hex_digit n = ''0123456789abcdef'' ! (n mod 16)"

text \<open>\<^verbatim>\<open>digest('hex')\<close>: two lowercase hexadecimal digits for each byte.\<close>

definition digest_hex :: "bytes \<Rightarrow> string" where
  "digest_hex bs = concat (map (\<lambda>b. [hex_digit (unat b div 16), hex_digit (unat b mod 16)]) bs)"

section \<open>PKCE strings\<close>

text \<open>
  \<^verbatim>\<open>Math.random()\<close> is an input: the \<open>k\<close>-th call of a request returns \<open>rnd k\<close>, a number
  of \<open>[0, 1)\<close>. The product with the length of the alphabet is taken exactly. In doubles
  the product is rounded: it can reach the next integer where the exact product stays
  just below it, so that the index of one draw is the next one, but the product of a double
  below 1 with 66 rounds to a number below 66, so the indices are those of the same range.
\<close>

definition characters :: string where
  "characters = ''ABCDEFGHIJKLMNOPQRSTUVWXYZabcdefghijklmnopqrstuvwxyz0123456789-._~''"

function generateRandomString_loop ::
  "(nat \<Rightarrow> rat) \<Rightarrow> nat \<Rightarrow> nat \<Rightarrow> string \<Rightarrow> string" where
  "generateRandomString_loop rnd len i result =
     (if i < len
      then generateRandomString_loop rnd len (i + 1)
             (result @ charAt characters \<lfloor>rnd i * of_nat (length characters)\<rfloor>)
      else result)"
  by pat_completeness auto
termination
  by (relation "measure (\<lambda>(rnd, len, i, result). len - i)") auto

declare generateRandomString_loop.simps [simp del]

definition generateRandomString :: "(nat \<Rightarrow> rat) \<Rightarrow> nat \<Rightarrow> string" where
  "generateRandomString rnd len = generateRandomString_loop rnd len 0 []"

record pkce =
  verifier :: string
  challenge :: string

definition generatePKCE :: "(nat \<Rightarrow> rat) \<Rightarrow> pkce" where
  "generatePKCE rnd =
     (let verifier = generateRandomString rnd 64;
          challenge = digest_hex (sha256 (update verifier))
      in \<lparr>verifier = verifier, challenge = challenge\<rparr>)"

text \<open>
  \<^verbatim>\<open>querystring.stringify\<close> of Node: every character outside the unreserved ones is
  written as \<open>%XX\<close>, the pairs are joined with \<open>&\<close>.
\<close>

definition qs_unreserved :: string where
  "qs_unreserved =
     ''ABCDEFGHIJKLMNOPQRSTUVWXYZabcdefghijklmnopqrstuvwxyz0123456789-_.!~*()'' @ [CHR 0x27]"

definition qs_escape :: "string \<Rightarrow> string" where
  "qs_escape s =
     concat (map (\<lambda>c. if c \<in> set qs_unreserved then [c]
                        else [CHR ''%'', ''0123456789ABCDEF'' ! (of_char c div 16),
                              ''0123456789ABCDEF'' ! (of_char c mod 16)]) s)"

definition qs_stringify :: "(string \<times> string) list \<Rightarrow> string" where
  "qs_stringify params = join ''&'' (map (\<lambda>(k, v). qs_escape k @ ''='' @ qs_escape v) params)"

section \<open>The platform and the effects of a request\<close>

text \<open>The record that \<^verbatim>\<open>tokenStorage\<close> keeps: \<^verbatim>\<open>{ access_token, refresh_token, expires_at }\<close>.\<close>

record tokens =
  access_token :: "string option"
  refresh_token :: "string option"
  expires_at :: int

text \<open>
  The body of a response of the token endpoint, by the fields the server reads. A field the
  server tests, or copies without a test, may be missing; \<^verbatim>\<open>expires_in\<close> is a number of
  seconds.
\<close>

record token_body =
  tb_error :: "string option"
  tb_error_description :: "string option"
  tb_access_token :: "string option"
  tb_refresh_token :: "string option"
  tb_expires_in :: int

text \<open>
  The body of a response of the upload initialisation:
  \<^verbatim>\<open>{ error: { code, message }, data: { publish_id, upload_url } }\<close>.
\<close>

record init_error =
  ie_code :: string
  ie_message :: string

record init_data =
  publish_id :: string
  upload_url :: string

record init_body =
  ib_error :: "init_error option"
  ib_data :: "init_data option"

text \<open>An awaited call of \<^verbatim>\<open>axios\<close> is fulfilled with the body of the response, or throws.\<close>

datatype 'a reply = Fulfilled 'a | Rejected js_error

type_synonym headers = "(string \<times> string) list"

datatype payload = Form "(string \<times> string) list" | Json json | Buffer bytes

text \<open>What a request does to the world outside the process, in order.\<close>

datatype effect =
    Post string payload headers
  | Get string headers
  | Put string payload headers
  | SaveTokens tokens
  | UnlinkSync string

definition is_put :: "effect \<Rightarrow> bool" where
  "is_put e = (case e of Put url content hs \<Rightarrow> True | _ \<Rightarrow> False)"

text \<open>
  What the world answers during one request: the environment variables, the \<open>k\<close>-th result
  of \<^verbatim>\<open>Math.random()\<close> and of \<^verbatim>\<open>Date.now()\<close>, the outcome of the two calls of
  \<^verbatim>\<open>tokenStorage\<close> (whose module is \<^verbatim>\<open>./tokenStorage\<close>: \<^verbatim>\<open>loadTokens\<close> returns a record
  or nothing, or throws; \<^verbatim>\<open>saveTokens\<close> returns or throws), and the platform's answer to
  each call of \<^verbatim>\<open>axios\<close>.
\<close>

record world =
  PORT :: string
  TIKTOK_CLIENT_KEY :: string
  TIKTOK_CLIENT_SECRET :: string
  TIKTOK_REDIRECT_URI :: string
  Math_random :: "nat \<Rightarrow> rat"
  Date_now :: "nat \<Rightarrow> int"
  loadTokens :: "js_error + tokens option"
  saveTokens :: "tokens \<Rightarrow> js_error option"
  oauth_token :: "effect \<Rightarrow> token_body reply"
  video_init :: "effect \<Rightarrow> init_body reply"
  axios :: "effect \<Rightarrow> json reply"

text \<open>What \<^verbatim>\<open>res\<close> sends. \<^verbatim>\<open>res.redirect\<close> answers 302; the status is 200 unless set.\<close>

datatype res_body = Send string | SendJson json | Redirect string

record response =
  status :: nat
  body :: res_body

text \<open>The one variable of the process: \<^verbatim>\<open>let codeVerifier = null\<close>.\<close>

record server =
  codeVerifier :: "string option"

section \<open>The authorization flow\<close>

definition auth_login :: "world \<Rightarrow> server \<Rightarrow> response \<times> server" where
  "auth_login w s =
     (let pkce = generatePKCE (Math_random w);
          s' = s\<lparr>codeVerifier := Some (verifier pkce)\<rparr>;
          params =
            [(''client_key'', TIKTOK_CLIENT_KEY w),
             (''redirect_uri'', TIKTOK_REDIRECT_URI w),
             (''response_type'', ''code''),
             (''scope'',
              ''user.info.basic,user.info.profile,user.info.stats,video.publish,video.upload''),
             (''state'', ''secureRandomState123''),
             (''code_challenge'', challenge pkce),
             (''code_challenge_method'', ''S256'')];
          authUrl = ''https://www.tiktok.com/v2/auth/authorize/?'' @ qs_stringify params
      in (\<lparr>status = 302, body = Redirect authUrl\<rparr>, s'))"

definition token_url :: string where
  "token_url = ''https://open.tiktokapis.com/v2/oauth/token/''"

definition form_headers :: headers where
  "form_headers = [(''Content-Type'', ''application/x-www-form-urlencoded'')]"

text \<open>The page of a successful login (its text is shortened here).\<close>

definition login_page :: string where
  "login_page = ''<h1>Login Successful!</h1><p>Tokens acquired and stored securely.</p>''"

definition exchange_request :: "world \<Rightarrow> string option \<Rightarrow> server \<Rightarrow> effect" where
  "exchange_request w code s =
     Post token_url
       (Form [(''client_key'', TIKTOK_CLIENT_KEY w),
              (''client_secret'', TIKTOK_CLIENT_SECRET w),
              (''code'', template code),
              (''grant_type'', ''authorization_code''),
              (''redirect_uri'', TIKTOK_REDIRECT_URI w),
              (''code_verifier'', template (codeVerifier s))])
       form_headers"

definition auth_callback ::
  "world \<Rightarrow> string option \<Rightarrow> server \<Rightarrow> response \<times> server \<times> effect list" where
  "auth_callback w code s =
     (if \<not> truthy code then (\<lparr>status = 400, body = Send ''Missing code''\<rparr>, s, [])
      else if \<not> truthy (codeVerifier s)
      then (\<lparr>status = 400, body = Send ''No code verifier found''\<rparr>, s, [])
      else
        let req = exchange_request w code s in
        case oauth_token w req of
          Rejected err \<Rightarrow> (\<lparr>status = 500, body = Send ''Token exchange failed''\<rparr>, s, [req])
        | Fulfilled d \<Rightarrow>
            if truthy (tb_error d)
            then (\<lparr>status = 400,
                   body = Send (''Error: '' @ template (tb_error d) @ '', Description: ''
                                @ template (tb_error_description d))\<rparr>, s, [req])
            else if \<not> truthy (tb_access_token d)
            then (\<lparr>status = 400, body = Send ''Access token not received''\<rparr>, s, [req])
            else
              let new = \<lparr>access_token = tb_access_token d,
                         refresh_token = tb_refresh_token d,
                         expires_at = Date_now w 0 + tb_expires_in d * 1000\<rparr> in
              (case saveTokens w new of
                 Some err \<Rightarrow>
                   (\<lparr>status = 500, body = Send ''Token exchange failed''\<rparr>, s, [req])
               | None \<Rightarrow>
                   (\<lparr>status = 200, body = Send login_page\<rparr>,
                    s\<lparr>codeVerifier := None\<rparr>, [req, SaveTokens new])))"

section \<open>The token refresher\<close>

definition refresh_request :: "world \<Rightarrow> tokens \<Rightarrow> effect" where
  "refresh_request w t =
     Post token_url
       (Form [(''client_key'', TIKTOK_CLIENT_KEY w),
              (''client_secret'', TIKTOK_CLIENT_SECRET w),
              (''grant_type'', ''refresh_token''),
              (''refresh_token'', template (refresh_token t))])
       form_headers"

text \<open>The \<^verbatim>\<open>try\<close> block of \<^verbatim>\<open>getValidAccessToken\<close>: what it returns or throws.\<close>

definition refresh :: "world \<Rightarrow> tokens \<Rightarrow> (js_error + string option) \<times> effect list" where
  "refresh w t =
     (let req = refresh_request w t in
      case oauth_token w req of
        Rejected err \<Rightarrow> (Inl err, [req])
      | Fulfilled d \<Rightarrow>
          if truthy (tb_error d)
          then (Inl (Error (''Token refresh failed: '' @ template (tb_error_description d))),
                [req])
          else
            let new = \<lparr>access_token = tb_access_token d,
                       refresh_token = tb_refresh_token d,
                       expires_at = Date_now w 1 + tb_expires_in d * 1000\<rparr> in
            (case saveTokens w new of
               Some err \<Rightarrow> (Inl err, [req])
             | None \<Rightarrow> (Inr (tb_access_token d), [req, SaveTokens new])))"

definition no_tokens_message :: "world \<Rightarrow> string" where
  "no_tokens_message w =
     ''No tokens available. Please complete OAuth flow first. Visit http://localhost:''
       @ PORT w @ ''/auth/login''"

definition refresh_failed_message :: "world \<Rightarrow> string" where
  "refresh_failed_message w =
     ''Token refresh failed. Please re-authenticate at http://localhost:''
       @ PORT w @ ''/auth/login''"

definition getValidAccessToken :: "world \<Rightarrow> (js_error + string option) \<times> effect list" where
  "getValidAccessToken w =
     (case loadTokens w of
        Inl err \<Rightarrow> (Inl err, [])
      | Inr None \<Rightarrow> (Inl (Error (no_tokens_message w)), [])
      | Inr (Some t) \<Rightarrow>
          if Date_now w 0 < expires_at t - 60 * 1000 then (Inr (access_token t), [])
          else
            (case refresh w t of
               (Inl err, tr) \<Rightarrow> (Inl (Error (refresh_failed_message w)), tr)
             | (Inr a, tr) \<Rightarrow> (Inr a, tr)))"

section \<open>The proxy handlers\<close>

definition bearer :: "string option \<Rightarrow> string" where
  "bearer token = ''Bearer '' @ template token"

definition json_headers :: "string option \<Rightarrow> headers" where
  "json_headers token =
     [(''Authorization'', bearer token),
      (''Content-Type'', ''application/json; charset=UTF-8'')]"

definition creator_info_request :: "string option \<Rightarrow> effect" where
  "creator_info_request token =
     Post ''https://open.tiktokapis.com/v2/post/publish/creator_info/query/''
       (Json (JObj [])) (json_headers token)"

definition creator_info :: "world \<Rightarrow> response \<times> effect list" where
  "creator_info w =
     (case getValidAccessToken w of
        (Inl err, tr) \<Rightarrow> (\<lparr>status = 500, body = Send ''API call failed''\<rparr>, tr)
      | (Inr token, tr) \<Rightarrow>
          let req = creator_info_request token in
          (case axios w req of
             Rejected err \<Rightarrow> (\<lparr>status = 500, body = Send ''API call failed''\<rparr>, tr @ [req])
           | Fulfilled profile \<Rightarrow> (\<lparr>status = 200, body = SendJson profile\<rparr>, tr @ [req])))"

definition failure :: "string \<Rightarrow> js_error \<Rightarrow> response" where
  "failure what err =
     \<lparr>status = 500,
      body = SendJson (JObj [(''error'', JStr what), (''details'', error_details err)])\<rparr>"

definition user_info_request :: "string option \<Rightarrow> string option \<Rightarrow> effect" where
  "user_info_request token fields' =
     Get (''https://open.tiktokapis.com/v2/user/info/?fields='' @ template fields')
       [(''Authorization'', bearer token)]"

definition fields_required :: response where
  "fields_required =
     \<lparr>status = 400,
      body = SendJson (JObj [(''error'', JStr ''fields query parameter is required''),
                             (''example'',
                              JStr ''GET /user/info?fields=open_id,union_id,avatar_url'')])\<rparr>"

definition user_info :: "world \<Rightarrow> string option \<Rightarrow> response \<times> effect list" where
  "user_info w fields' =
     (case getValidAccessToken w of
        (Inl err, tr) \<Rightarrow> (failure ''User info request failed'' err, tr)
      | (Inr token, tr) \<Rightarrow>
          if \<not> truthy fields' then (fields_required, tr)
          else
            let req = user_info_request token fields' in
            (case axios w req of
               Rejected err \<Rightarrow> (failure ''User info request failed'' err, tr @ [req])
             | Fulfilled d \<Rightarrow> (\<lparr>status = 200, body = SendJson d\<rparr>, tr @ [req])))"

definition status_request :: "string option \<Rightarrow> string option \<Rightarrow> effect" where
  "status_request token pid =
     Post ''https://open.tiktokapis.com/v2/post/publish/status/fetch/''
       (Json (JObj [(''publish_id'', JStr (template pid))])) (json_headers token)"

definition video_status :: "world \<Rightarrow> string option \<Rightarrow> response \<times> effect list" where
  "video_status w pid =
     (case getValidAccessToken w of
        (Inl err, tr) \<Rightarrow> (failure ''Status check failed'' err, tr)
      | (Inr token, tr) \<Rightarrow>
          if \<not> truthy pid
          then (\<lparr>status = 400,
                 body = SendJson (JObj [(''error'',
                                         JStr ''publish_id query parameter is required'')])\<rparr>, tr)
          else
            let req = status_request token pid in
            (case axios w req of
               Rejected err \<Rightarrow> (failure ''Status check failed'' err, tr @ [req])
             | Fulfilled d \<Rightarrow> (\<lparr>status = 200, body = SendJson d\<rparr>, tr @ [req])))"

section \<open>The upload of a video file\<close>

text \<open>\<^verbatim>\<open>req.file\<close>, as \<^verbatim>\<open>multer\<close> stores an uploaded file under \<^verbatim>\<open>/tmp/uploads/\<close>.\<close>

record upload_file =
  f_path :: string
  f_size :: nat
  f_originalname :: string

text \<open>The files of the machine, by path.\<close>

type_synonym files = "string \<Rightarrow> bytes option"

definition existsSync :: "files \<Rightarrow> string \<Rightarrow> bool" where
  "existsSync fs p = (fs p \<noteq> None)"

definition unlinkSync :: "files \<Rightarrow> string \<Rightarrow> js_error + files" where
  "unlinkSync fs p =
     (if existsSync fs p then Inr (fs(p := None))
      else Inl (Error (''ENOENT: no such file or directory, unlink '' @ p)))"

definition readFileSync :: "files \<Rightarrow> string \<Rightarrow> js_error + bytes" where
  "readFileSync fs p =
     (case fs p of
        None \<Rightarrow> Inl (Error (''ENOENT: no such file or directory, open '' @ p))
      | Some content \<Rightarrow> Inr content)"

definition chunkSize :: "nat \<Rightarrow> nat" where
  "chunkSize videoSize = (if videoSize < 10 * 1024 * 1024 then videoSize else 10 * 1024 * 1024)"

text \<open>
  \<^verbatim>\<open>Math.ceil(a / b)\<close> on byte counts. With \<open>b = 0\<close> the quotient is not a finite number
  (\<^verbatim>\<open>0 / 0\<close> is \<^verbatim>\<open>NaN\<close>), which is \<open>None\<close> here and \<^verbatim>\<open>null\<close> in a JSON body.
\<close>

definition Math_ceil_div :: "nat \<Rightarrow> nat \<Rightarrow> int option" where
  "Math_ceil_div a b = (if b = 0 then None else Some \<lceil>(of_nat a :: rat) / of_nat b\<rceil>)"

definition totalChunkCount :: "nat \<Rightarrow> int option" where
  "totalChunkCount videoSize = Math_ceil_div videoSize (chunkSize videoSize)"

definition json_number :: "int option \<Rightarrow> json" where
  "json_number n = (case n of None \<Rightarrow> JNull | Some k \<Rightarrow> JNum k)"

text \<open>
  \<^verbatim>\<open>(videoSize / 1024 / 1024).toFixed(2)\<close>: the quotient by \<open>2^20\<close> is exact, and the
  result is the closest number of hundredths, the larger one of two.
\<close>

definition size_mb :: "nat \<Rightarrow> string" where
  "size_mb videoSize =
     (let n = (200 * videoSize + 1048576) div 2097152
      in dec (n div 100) @ ''.'' @ dec (n mod 100 div 10) @ dec (n mod 10))"

definition init_request :: "string option \<Rightarrow> nat \<Rightarrow> effect" where
  "init_request token videoSize =
     Post ''https://open.tiktokapis.com/v2/post/publish/inbox/video/init/''
       (Json (JObj [(''source_info'',
                     JObj [(''source'', JStr ''FILE_UPLOAD''),
                           (''video_size'', JNum (int videoSize)),
                           (''chunk_size'', JNum (int (chunkSize videoSize))),
                           (''total_chunk_count'', json_number (totalChunkCount videoSize))])]))
       (json_headers token)"

definition put_request :: "string \<Rightarrow> bytes \<Rightarrow> nat \<Rightarrow> effect" where
  "put_request url videoBuffer videoSize =
     Put url (Buffer videoBuffer)
       [(''Content-Range'',
         ''bytes 0-'' @ show_number (int videoSize - 1) @ ''/'' @ show_number (int videoSize)),
        (''Content-Type'', ''video/mp4''),
        (''Content-Length'', show_number (int videoSize))]"

definition uploaded :: "upload_file \<Rightarrow> init_data \<Rightarrow> response" where
  "uploaded file d =
     \<lparr>status = 200,
      body = SendJson (JObj
        [(''success'', JBool True),
         (''message'', JStr (''Video uploaded to TikTok inbox successfully. ''
                             @ ''User must complete editing flow in TikTok app.'')),
         (''data'', JObj
            [(''publish_id'', JStr (publish_id d)),
             (''file_info'', JObj
                [(''original_name'', JStr (f_originalname file)),
                 (''size'', JNum (int (f_size file))),
                 (''size_mb'', JStr (size_mb (f_size file)))]),
             (''note'', JStr (''Video is now in TikTok inbox. User must click on inbox ''
                              @ ''notifications to continue the editing flow in TikTok ''
                              @ ''and complete the post.''))])])\<rparr>"

text \<open>
  The initialisation is taken as accepted unless the body has an \<^verbatim>\<open>error\<close> whose
  \<^verbatim>\<open>code\<close> is not \<^verbatim>\<open>'ok'\<close>: the test
  \<^verbatim>\<open>initResponse.data.error && initResponse.data.error.code !== 'ok'\<close> is false.
\<close>

definition init_accepted :: "init_body \<Rightarrow> bool" where
  "init_accepted b = (case ib_error b of None \<Rightarrow> True | Some e \<Rightarrow> ie_code e = ''ok'')"

text \<open>Step 2 of the handler: the file is read, sent with one \<^verbatim>\<open>PUT\<close> and removed.\<close>

definition upload_step ::
  "world \<Rightarrow> files \<Rightarrow> upload_file \<Rightarrow> init_data
     \<Rightarrow> (js_error + response) \<times> files \<times> effect list" where
  "upload_step w fs file d =
     (case readFileSync fs (f_path file) of
        Inl err \<Rightarrow> (Inl err, fs, [])
      | Inr videoBuffer \<Rightarrow>
          let put = put_request (upload_url d) videoBuffer (f_size file) in
          (case axios w put of
             Rejected err \<Rightarrow> (Inl err, fs, [put])
           | Fulfilled uploadResponse \<Rightarrow>
               (case unlinkSync fs (f_path file) of
                  Inl err \<Rightarrow> (Inl err, fs, [put])
                | Inr fs' \<Rightarrow> (Inr (uploaded file d), fs', [put, UnlinkSync (f_path file)]))))"

text \<open>
  \<^verbatim>\<open>const { publish_id, upload_url } = initResponse.data.data\<close> throws a
  \<^verbatim>\<open>TypeError\<close> when the body has no \<^verbatim>\<open>data\<close>.
\<close>

definition no_data_message :: string where
  "no_data_message =
     ''Cannot destructure property '' @ [CHR 0x27] @ ''publish_id'' @ [CHR 0x27] @ '' of ''
       @ [CHR 0x27] @ ''initResponse.data.data'' @ [CHR 0x27] @ '' as it is undefined.''"

definition after_init ::
  "world \<Rightarrow> files \<Rightarrow> upload_file \<Rightarrow> effect \<Rightarrow> init_body
     \<Rightarrow> (js_error + response) \<times> files \<times> effect list" where
  "after_init w fs file init initResponse =
     (case ib_data initResponse of
        None \<Rightarrow> (Inl (Error no_data_message), fs, [init])
      | Some d \<Rightarrow>
          (case upload_step w fs file d of (r, fs', tr) \<Rightarrow> (r, fs', init # tr)))"

text \<open>Step 1 and what follows it, once the access token is there.\<close>

definition init_step ::
  "world \<Rightarrow> files \<Rightarrow> upload_file \<Rightarrow> string option
     \<Rightarrow> (js_error + response) \<times> files \<times> effect list" where
  "init_step w fs file token =
     (let init = init_request token (f_size file) in
      case video_init w init of
        Rejected err \<Rightarrow> (Inl err, fs, [init])
      | Fulfilled initResponse \<Rightarrow>
          (case ib_error initResponse of
             Some e \<Rightarrow>
               if ie_code e \<noteq> ''ok''
               then (case unlinkSync fs (f_path file) of
                       Inl err \<Rightarrow> (Inl err, fs, [init])
                     | Inr fs' \<Rightarrow>
                         (Inl (Error (''TikTok API Error: '' @ ie_message e)), fs',
                          [init, UnlinkSync (f_path file)]))
               else after_init w fs file init initResponse
           | None \<Rightarrow> after_init w fs file init initResponse))"

text \<open>The \<^verbatim>\<open>try\<close> block of the handler, for a request that carries a file.\<close>

definition video_upload_try ::
  "world \<Rightarrow> files \<Rightarrow> upload_file \<Rightarrow> (js_error + response) \<times> files \<times> effect list" where
  "video_upload_try w fs file =
     (case getValidAccessToken w of
        (Inl err, tr) \<Rightarrow> (Inl err, fs, tr)
      | (Inr token, tr) \<Rightarrow>
          (case init_step w fs file token of (r, fs', tr') \<Rightarrow> (r, fs', tr @ tr')))"

text \<open>
  The handler with its \<^verbatim>\<open>catch\<close> block, which removes the file if it is still there.
\<close>

definition video_upload ::
  "world \<Rightarrow> files \<Rightarrow> upload_file option \<Rightarrow> response \<times> files \<times> effect list" where
  "video_upload w fs req_file =
     (case req_file of
        None \<Rightarrow>
          (\<lparr>status = 400, body = SendJson (JObj [(''error'', JStr ''No video file uploaded'')])\<rparr>,
           fs, [])
      | Some file \<Rightarrow>
          (case video_upload_try w fs file of
             (Inr res, fs', tr) \<Rightarrow> (res, fs', tr)
           | (Inl err, fs', tr) \<Rightarrow>
               if f_path file \<noteq> [] \<and> existsSync fs' (f_path file)
               then (failure ''Video upload failed'' err, fs'(f_path file := None),
                     tr @ [UnlinkSync (f_path file)])
               else (failure ''Video upload failed'' err, fs', tr)))"

section \<open>The direct post of a file of the machine\<close>

definition bad_request :: "string \<Rightarrow> response" where
  "bad_request msg = \<lparr>status = 400, body = SendJson (JObj [(''error'', JStr msg)])\<rparr>"

definition direct_post_init_request :: "string option \<Rightarrow> string \<Rightarrow> nat \<Rightarrow> effect" where
  "direct_post_init_request token title fileSize =
     Post ''https://open.tiktokapis.com/v2/post/publish/video/init/''
       (Json (JObj [(''post_info'',
                     JObj [(''title'', JStr title),
                           (''privacy_level'', JStr ''PUBLIC_TO_EVERYONE''),
                           (''disable_duet'', JBool False),
                           (''disable_comment'', JBool False),
                           (''disable_stitch'', JBool False),
                           (''video_cover_timestamp_ms'', JNum 1000)]),
                    (''source_info'',
                     JObj [(''source'', JStr ''FILE_UPLOAD''),
                           (''video_size'', JNum (int fileSize)),
                           (''chunk_size'', JNum (int (chunkSize fileSize))),
                           (''total_chunk_count'', json_number (totalChunkCount fileSize))])]))
       (json_headers token)"

definition upload_requested :: "world \<Rightarrow> string \<Rightarrow> nat \<Rightarrow> init_data \<Rightarrow> response" where
  "upload_requested w file_path fileSize d =
     \<lparr>status = 200,
      body = SendJson (JObj
        [(''success'', JBool True),
         (''message'', JStr ''Video upload requested successfully''),
         (''data'', JObj
            [(''publish_id'', JStr (publish_id d)),
             (''status_url'', JStr (''http://localhost:'' @ PORT w
                                    @ ''/video/status?publish_id='' @ publish_id d)),
             (''file_info'', JObj
                [(''path'', JStr file_path),
                 (''size'', JNum (int fileSize)),
                 (''size_mb'', JStr (size_mb fileSize))])])])\<rparr>"

text \<open>What follows the answer of the initialisation: the check, the read and the \<^verbatim>\<open>PUT\<close>.\<close>

definition direct_post_upload ::
  "world \<Rightarrow> files \<Rightarrow> string \<Rightarrow> nat \<Rightarrow> init_body
     \<Rightarrow> (js_error + response) \<times> effect list" where
  "direct_post_upload w fs file_path fileSize initResponse =
     (let failed = (case ib_error initResponse of
                      None \<Rightarrow> None
                    | Some e \<Rightarrow> if ie_code e \<noteq> ''ok'' then Some e else None)
      in case failed of
        Some e \<Rightarrow> (Inl (Error (''TikTok API Error: '' @ ie_message e)), [])
      | None \<Rightarrow>
          (case ib_data initResponse of
             None \<Rightarrow> (Inl (Error no_data_message), [])
           | Some d \<Rightarrow>
               (case readFileSync fs file_path of
                  Inl err \<Rightarrow> (Inl err, [])
                | Inr videoBuffer \<Rightarrow>
                    let put = put_request (upload_url d) videoBuffer fileSize in
                    (case axios w put of
                       Rejected err \<Rightarrow> (Inl err, [put])
                     | Fulfilled uploadResponse \<Rightarrow>
                         (Inr (upload_requested w file_path fileSize d), [put])))))"

text \<open>\<^verbatim>\<open>fs.statSync(file_path).size\<close> is the length of the file.\<close>

definition video_direct_post ::
  "world \<Rightarrow> files \<Rightarrow> string option \<Rightarrow> string option \<Rightarrow> response \<times> effect list" where
  "video_direct_post w fs file_path title =
     (case getValidAccessToken w of
        (Inl err, tr) \<Rightarrow> (failure ''Video upload failed'' err, tr)
      | (Inr token, tr) \<Rightarrow>
          if \<not> truthy file_path then (bad_request ''file_path is required'', tr)
          else if \<not> truthy title then (bad_request ''title is required'', tr)
          else
            (case fs (template file_path) of
               None \<Rightarrow> (bad_request ''File not found at specified path'', tr)
             | Some content \<Rightarrow>
                 let fileSize = length content;
                     init = direct_post_init_request token (template title) fileSize in
                 (case video_init w init of
                    Rejected err \<Rightarrow> (failure ''Video upload failed'' err, tr @ [init])
                  | Fulfilled initResponse \<Rightarrow>
                      (case direct_post_upload w fs (template file_path) fileSize initResponse of
                         (Inl err, tr') \<Rightarrow>
                           (failure ''Video upload failed'' err, tr @ init # tr')
                       | (Inr res, tr') \<Rightarrow> (res, tr @ init # tr')))))"

section \<open>The token store\<close>

text \<open>
  Modelled from the spec: the symmetric authenticated-encryption primitive of the Secret
  Cipher Wrapper, which the spec does not name. It encrypts a byte blob under a key, and
  decrypting fails (\<open>None\<close>) on a wrong key or a changed ciphertext.
\<close>

record cipher =
  encrypt :: "string \<Rightarrow> bytes \<Rightarrow> bytes"
  decrypt :: "string \<Rightarrow> bytes \<Rightarrow> bytes option"

text \<open>
  Modelled from the spec: the Token Store of \<^verbatim>\<open>./tokenStorage\<close> (the class
  \<^verbatim>\<open>SecureTokenStorage\<close>, constructed with the key and the path of the file), which is not
  among the sources.
\<close>

record storage =
  st_key :: string
  st_path :: string
  st_cipher :: cipher

text \<open>
  Modelled from the spec: the canonical byte form of a record, the JSON payload of the
  token file, which \<^verbatim>\<open>./tokenStorage\<close> writes. Inside a JSON string the quotation mark
  and the backslash are escaped with a backslash.
\<close>

fun escape :: "string \<Rightarrow> string" where
  "escape [] = []"
| "escape (c # cs) =
     (if c = CHR 0x22 \<or> c = CHR 0x5C then CHR 0x5C # c # escape cs else c # escape cs)"

text \<open>
  Modelled from the spec: the JSON text of a token of the payload, a string in quotation
  marks, or \<^verbatim>\<open>null\<close> for a token that is missing.
\<close>

definition json_text :: "string option \<Rightarrow> string" where
  "json_text v = (case v of None \<Rightarrow> ''null'' | Some s \<Rightarrow> CHR 0x22 # escape s @ [CHR 0x22])"

text \<open>Modelled from the spec: the name of a member of the payload, with its colon.\<close>

definition json_key :: "string \<Rightarrow> string" where
  "json_key k = CHR 0x22 # k @ [CHR 0x22, CHR '':'']"

text \<open>
  Modelled from the spec: the JSON payload of a record, the object of its three members in
  the order of the data model, \<^verbatim>\<open>access_token\<close>, \<^verbatim>\<open>refresh_token\<close>, \<^verbatim>\<open>expires_at\<close>.
\<close>

definition token_json :: "tokens \<Rightarrow> string" where
  "token_json r =
     ''{'' @ json_key ''access_token'' @ json_text (access_token r)
     @ '','' @ json_key ''refresh_token'' @ json_text (refresh_token r)
     @ '','' @ json_key ''expires_at'' @ show_number (expires_at r) @ ''}''"

text \<open>Modelled from the spec: the record serialized to its canonical byte form.\<close>

definition serialize :: "tokens \<Rightarrow> bytes" where
  "serialize r = update (token_json r)"

text \<open>
  Modelled from the spec: the JSON parse of the payload, piece by piece. It reads a fixed
  piece of text from the front of the input.
\<close>

fun expect :: "string \<Rightarrow> string \<Rightarrow> string option" where
  "expect [] s = Some s"
| "expect (p # ps) [] = None"
| "expect (p # ps) (c # cs) = (if p = c then expect ps cs else None)"

text \<open>
  Modelled from the spec: the JSON parse of a string, after its opening quotation mark, up
  to the closing one; it returns the string and the rest of the input.
\<close>

fun read_string :: "string \<Rightarrow> (string \<times> string) option" where
  "read_string [] = None"
| "read_string (c # cs) =
     (if c = CHR 0x22 then Some ([], cs)
      else if c = CHR 0x5C
      then (case cs of
              [] \<Rightarrow> None
            | d # ds \<Rightarrow>
                (case read_string ds of
                   None \<Rightarrow> None
                 | Some (s, rest) \<Rightarrow> Some (d # s, rest)))
      else (case read_string cs of
              None \<Rightarrow> None
            | Some (s, rest) \<Rightarrow> Some (c # s, rest)))"

text \<open>Modelled from the spec: the JSON parse of a token, a string or \<^verbatim>\<open>null\<close>.\<close>

definition read_text :: "string \<Rightarrow> (string option \<times> string) option" where
  "read_text s =
     (case s of
        [] \<Rightarrow> None
      | c # cs \<Rightarrow>
          if c = CHR 0x22
          then (case read_string cs of None \<Rightarrow> None | Some (v, rest) \<Rightarrow> Some (Some v, rest))
          else (case expect ''null'' s of None \<Rightarrow> None | Some rest \<Rightarrow> Some (None, rest)))"

text \<open>Modelled from the spec: the JSON parse of a number, its decimal digits.\<close>

definition is_digit :: "char \<Rightarrow> bool" where
  "is_digit c = (c \<in> set ''0123456789'')"

text \<open>
  Modelled from the spec: the JSON parse of the digits at the front of the input; it
  returns their value and the rest of the input, and fails when there is no digit.
\<close>

definition read_digits :: "string \<Rightarrow> (nat \<times> string) option" where
  "read_digits s =
     (let ds = takeWhile is_digit s
      in if ds = [] then None
         else Some (foldl (\<lambda>n c. 10 * n + (of_char c - 48)) 0 ds, dropWhile is_digit s))"

text \<open>Modelled from the spec: the JSON parse of an integer, with its sign.\<close>

definition read_number :: "string \<Rightarrow> (int \<times> string) option" where
  "read_number s =
     (case s of
        [] \<Rightarrow> None
      | c # cs \<Rightarrow>
          if c = CHR ''-''
          then (case read_digits cs of None \<Rightarrow> None | Some (n, rest) \<Rightarrow> Some (- int n, rest))
          else (case read_digits s of None \<Rightarrow> None | Some (n, rest) \<Rightarrow> Some (int n, rest)))"

text \<open>
  Modelled from the spec: the JSON parse of the payload of a record; anything else than
  the canonical form of a record fails.
\<close>

definition read_token_json :: "string \<Rightarrow> tokens option" where
  "read_token_json s =
     (case expect (''{'' @ json_key ''access_token'') s of
        None \<Rightarrow> None
      | Some s1 \<Rightarrow>
     (case read_text s1 of
        None \<Rightarrow> None
      | Some (a, s2) \<Rightarrow>
     (case expect ('','' @ json_key ''refresh_token'') s2 of
        None \<Rightarrow> None
      | Some s3 \<Rightarrow>
     (case read_text s3 of
        None \<Rightarrow> None
      | Some (r, s4) \<Rightarrow>
     (case expect ('','' @ json_key ''expires_at'') s4 of
        None \<Rightarrow> None
      | Some s5 \<Rightarrow>
     (case read_number s5 of
        None \<Rightarrow> None
      | Some (e, s6) \<Rightarrow>
          if s6 = ''}''
          then Some \<lparr>access_token = a, refresh_token = r, expires_at = e\<rparr>
          else None))))))"

text \<open>Modelled from the spec: the parse of the decrypted bytes of the token file.\<close>

definition parse :: "bytes \<Rightarrow> tokens option" where
  "parse plaintext = read_token_json (map (\<lambda>b. char_of (unat b)) plaintext)"

text \<open>
  Modelled from the spec: \<^verbatim>\<open>save(record)\<close> serializes the record, encrypts it under the
  configured key and writes it to the configured path, replacing any prior content.
\<close>

definition save :: "storage \<Rightarrow> files \<Rightarrow> tokens \<Rightarrow> files" where
  "save st fs r = fs(st_path st \<mapsto> encrypt (st_cipher st) (st_key st) (serialize r))"

text \<open>
  Modelled from the spec: \<^verbatim>\<open>load()\<close> reads the file if present; absent, it returns
  "no tokens"; present, it decrypts and parses, and a failure of either is a fatal
  configuration error.
\<close>

definition load :: "storage \<Rightarrow> files \<Rightarrow> js_error + tokens option" where
  "load st fs =
     (case fs (st_path st) of
        None \<Rightarrow> Inr None
      | Some ciphertext \<Rightarrow>
          (case decrypt (st_cipher st) (st_key st) ciphertext of
             None \<Rightarrow> Inl (Error ''Failed to decrypt the token file'')
           | Some plaintext \<Rightarrow>
               (case parse plaintext of
                  None \<Rightarrow> Inl (Error ''Failed to parse the token file'')
                | Some r \<Rightarrow> Inr (Some r))))"

section \<open>Scenarios\<close>

text \<open>Two sources of random numbers that draw the same characters.\<close>

definition draws_zero :: "nat \<Rightarrow> rat" where
  "draws_zero k = 0"

definition draws_small :: "nat \<Rightarrow> rat" where
  "draws_small k = 1 / 100"

text \<open>
  A world in which the token file does not exist and every call of the platform fails;
  the scenarios below change it field by field.
\<close>

definition quiet_world :: world where
  "quiet_world =
     \<lparr>PORT = ''7777'',
      TIKTOK_CLIENT_KEY = ''key'',
      TIKTOK_CLIENT_SECRET = ''secret'',
      TIKTOK_REDIRECT_URI = ''http://localhost:7777/auth/callback'',
      Math_random = draws_zero,
      Date_now = (\<lambda>k. 1700000000000),
      loadTokens = Inr None,
      saveTokens = (\<lambda>t. None),
      oauth_token = (\<lambda>req. Rejected (Error ''Network Error'')),
      video_init = (\<lambda>req. Rejected (Error ''Network Error'')),
      axios = (\<lambda>req. Rejected (Error ''Network Error''))\<rparr>"

definition stored :: "int \<Rightarrow> tokens" where
  "stored e = \<lparr>access_token = Some ''A'', refresh_token = Some ''R'', expires_at = e\<rparr>"

text \<open>The stored record expires 61 seconds, and 59 seconds, after the request.\<close>

definition world_61 :: world where
  "world_61 = quiet_world\<lparr>loadTokens := Inr (Some (stored (1700000000000 + 61000)))\<rparr>"

definition world_59 :: world where
  "world_59 = quiet_world\<lparr>loadTokens := Inr (Some (stored (1700000000000 + 59000)))\<rparr>"

text \<open>The process before any login.\<close>

definition fresh :: server where
  "fresh = \<lparr>codeVerifier = None\<rparr>"

text \<open>The token endpoint refuses the code, or grants the tokens.\<close>

definition platform_error :: token_body where
  "platform_error =
     \<lparr>tb_error = Some ''invalid_grant'',
      tb_error_description = Some ''Authorization code is expired.'',
      tb_access_token = None, tb_refresh_token = None, tb_expires_in = 0\<rparr>"

definition platform_tokens :: token_body where
  "platform_tokens =
     \<lparr>tb_error = None, tb_error_description = None,
      tb_access_token = Some ''A'', tb_refresh_token = Some ''R'', tb_expires_in = 3600\<rparr>"

definition world_exchange_error :: world where
  "world_exchange_error = quiet_world\<lparr>oauth_token := (\<lambda>req. Fulfilled platform_error)\<rparr>"

definition world_exchange_ok :: world where
  "world_exchange_ok = quiet_world\<lparr>oauth_token := (\<lambda>req. Fulfilled platform_tokens)\<rparr>"

text \<open>
  The platform refuses a call of the API with status 401 and a body, or answers with
  status 200 and a body that describes an error. The stored token is valid in both worlds.
\<close>

definition invalid_token_body :: json where
  "invalid_token_body =
     JObj [(''error'', JObj [(''code'', JStr ''access_token_invalid''),
                            (''message'', JStr ''The access token is invalid.'')])]"

definition api_401 :: js_error where
  "api_401 = \<lparr>response_data = Some invalid_token_body,
              message = ''Request failed with status code 401''\<rparr>"

definition world_api_401 :: world where
  "world_api_401 = world_61\<lparr>axios := (\<lambda>req. Rejected api_401)\<rparr>"

definition world_error_body :: world where
  "world_error_body = world_61\<lparr>axios := (\<lambda>req. Fulfilled invalid_token_body)\<rparr>"

text \<open>
  An uploaded file of three bytes, as \<^verbatim>\<open>multer\<close> stored it beside another file, and the
  answers of the initialisation: accepted, with the address of the upload, or refused.
\<close>

definition clip :: upload_file where
  "clip = \<lparr>f_path = ''/tmp/uploads/3f2a'', f_size = 3, f_originalname = ''clip.mp4''\<rparr>"

definition disk :: files where
  "disk = Map.empty(''/tmp/uploads/3f2a'' \<mapsto> [1, 2, 3], ''/tmp/uploads/0b9e'' \<mapsto> [4, 5])"

definition init_ok :: init_body where
  "init_ok =
     \<lparr>ib_error = Some \<lparr>ie_code = ''ok'', ie_message = []\<rparr>,
      ib_data = Some \<lparr>publish_id = ''v_inbox_file~1'',
                      upload_url = ''https://open-upload.tiktokapis.com/video/?upload_id=1''\<rparr>\<rparr>"

definition init_refused :: init_body where
  "init_refused =
     \<lparr>ib_error = Some \<lparr>ie_code = ''spam_risk_too_many_pending_share'',
                       ie_message = ''Too many pending shares''\<rparr>,
      ib_data = None\<rparr>"

text \<open>
  With a valid stored token: the upload goes through; the \<^verbatim>\<open>PUT\<close> fails; the
  initialisation is refused. In \<open>world_61\<close> itself the initialisation fails on the network.
\<close>

definition world_upload_ok :: world where
  "world_upload_ok =
     world_61\<lparr>video_init := (\<lambda>req. Fulfilled init_ok), axios := (\<lambda>req. Fulfilled (JObj []))\<rparr>"

definition world_put_fails :: world where
  "world_put_fails = world_61\<lparr>video_init := (\<lambda>req. Fulfilled init_ok)\<rparr>"

definition world_init_refused :: world where
  "world_init_refused = world_61\<lparr>video_init := (\<lambda>req. Fulfilled init_refused)\<rparr>"

text \<open>A file of 25 MiB and an empty file, by the size that \<^verbatim>\<open>multer\<close> reports.\<close>

definition long_clip :: upload_file where
  "long_clip = \<lparr>f_path = ''/tmp/uploads/77c1'', f_size = 26214400, f_originalname = ''long.mp4''\<rparr>"

definition empty_clip :: upload_file where
  "empty_clip = \<lparr>f_path = ''/tmp/uploads/e000'', f_size = 0, f_originalname = ''empty.mp4''\<rparr>"

text \<open>
  An instance of the token store, to run it: a cipher that adds a key byte to every byte and
  puts a checksum in front, and a record whose access token holds a quotation mark and a
  backslash.
\<close>

definition key_byte :: "string \<Rightarrow> byte" where
  "key_byte k = sum_list (update k)"

definition toy_cipher :: cipher where
  "toy_cipher =
     \<lparr>encrypt = (\<lambda>k m. (key_byte k + sum_list m) # map (\<lambda>b. b + key_byte k) m),
      decrypt = (\<lambda>k c. case c of
                   [] \<Rightarrow> None
                 | t # bs \<Rightarrow>
                     let m = map (\<lambda>b. b - key_byte k) bs
                     in if key_byte k + sum_list m = t then Some m else None)\<rparr>"

definition toy_storage :: storage where
  "toy_storage =
     \<lparr>st_key = ''0123456789abcdef0123456789abcdef'',
      st_path = ''./data/tokens.encrypted.json'',
      st_cipher = toy_cipher\<rparr>"

definition quoted :: tokens where
  "quoted = \<lparr>access_token = Some (''act.'' @ [CHR 0x22, CHR 0x5C] @ ''9f''),
             refresh_token = None, expires_at = - 1\<rparr>"

text \<open>The details of an upstream failure that a response carries, if any.\<close>

definition relayed_details :: "response \<Rightarrow> json option" where
  "relayed_details r =
     (case body r of SendJson (JObj kvs) \<Rightarrow> map_of kvs ''details'' | _ \<Rightarrow> None)"

section \<open>The token refresher: validity and the first run\<close>

lemma refresh_contacts: "refresh_request w t \<in> set (snd (refresh w t))"
  by (simp add: refresh_def Let_def split: reply.split option.split)

text \<open>
  C1. With a record in the store, \<^verbatim>\<open>getValidAccessToken\<close> returns the stored access token
  and does nothing else exactly when the current time is strictly below \<open>expires_at\<close>
  minus 60 seconds; otherwise it sends the refresh request to the token endpoint.
\<close>

theorem getValidAccessToken_valid_iff:
  "loadTokens w = Inr (Some t) \<Longrightarrow>
     (getValidAccessToken w = (Inr (access_token t), [])
        \<longleftrightarrow> Date_now w 0 < expires_at t - 60 * 1000)
     \<and> (\<not> Date_now w 0 < expires_at t - 60 * 1000
          \<longrightarrow> refresh_request w t \<in> set (snd (getValidAccessToken w)))"
proof -
  assume l: "loadTokens w = Inr (Some t)"
  obtain r tr where rt: "refresh w t = (r, tr)" by (cases "refresh w t")
  with refresh_contacts [of w t] have tr: "refresh_request w t \<in> set tr" by simp
  then have ne: "tr \<noteq> []" by auto
  show ?thesis
    using l rt tr ne by (cases r) (auto simp add: getValidAccessToken_def)
qed

text \<open>
  The boundary of the spec: a record that expires in 61 seconds is used as it is, one that
  expires in 59 seconds triggers the refresh request.
\<close>

theorem getValidAccessToken_valid_iff_witness:
  "getValidAccessToken world_61 = (Inr (Some ''A''), [])
   \<and> refresh_request world_59 (stored (1700000000000 + 59000))
       \<in> set (snd (getValidAccessToken world_59))"
proof -
  have a: "loadTokens world_61 = Inr (Some (stored (1700000000000 + 61000)))"
    by (simp add: world_61_def)
  have b: "loadTokens world_59 = Inr (Some (stored (1700000000000 + 59000)))"
    by (simp add: world_59_def)
  from getValidAccessToken_valid_iff [OF a] getValidAccessToken_valid_iff [OF b]
  show ?thesis
    by (simp add: world_61_def world_59_def quiet_world_def stored_def)
qed

text \<open>
  C6. With no record in the store, \<^verbatim>\<open>getValidAccessToken\<close> throws an error whose message
  sends the operator to the login endpoint, and does nothing else: no request is sent. The
  message differs from the one of a failed refresh, whatever the port.
\<close>

theorem getValidAccessToken_no_tokens:
  "loadTokens w = Inr None \<Longrightarrow>
     getValidAccessToken w =
       (Inl (Error (''No tokens available. Please complete OAuth flow first. ''
                    @ ''Visit http://localhost:'' @ PORT w @ ''/auth/login'')), [])
     \<and> no_tokens_message w \<noteq> refresh_failed_message w'"
  by (simp add: getValidAccessToken_def no_tokens_message_def refresh_failed_message_def)

theorem getValidAccessToken_no_tokens_witness:
  "getValidAccessToken quiet_world =
     (Inl (Error (''No tokens available. Please complete OAuth flow first. ''
                  @ ''Visit http://localhost:7777/auth/login'')), [])"
proof -
  have a: "loadTokens quiet_world = Inr None"
    by (simp add: quiet_world_def)
  from getValidAccessToken_no_tokens [OF a] show ?thesis
    by (simp add: quiet_world_def)
qed

section \<open>PKCE: the verifier and its challenge\<close>

text \<open>The model of SHA-256 on the test vector \<open>abc\<close> of the standard.\<close>

lemma sha256_abc:
  "digest_hex (sha256 (update ''abc'')) =
     ''ba7816bf8f01cfea414140de5dae2223b00361a396177a9cb410ff61f20015ad''"
  by code_simp

lemma length_characters: "length characters = 66"
  by (simp add: characters_def)

lemma charAt_draw:
  fixes r :: rat
  assumes "0 \<le> r" "r < 1"
  shows "\<exists>c. charAt characters \<lfloor>r * of_nat (length characters)\<rfloor> = [c] \<and> c \<in> set characters"
proof -
  let ?i = "\<lfloor>r * 66\<rfloor>"
  have lo: "0 \<le> ?i" using assms by simp
  have "r * 66 < 66" using assms by simp
  then have hi: "?i < 66" by (simp add: floor_less_iff)
  have "nat ?i < 66" using lo hi by linarith
  then have "nat ?i < length characters" by (simp only: length_characters)
  then have "characters ! nat ?i \<in> set characters" by (rule nth_mem)
  then show ?thesis using lo hi by (simp only: charAt_def length_characters) auto
qed

lemma loop_props:
  assumes rnd: "\<And>k. 0 \<le> rnd k \<and> rnd k < 1"
  shows "length (generateRandomString_loop rnd len i result) = length result + (len - i)
         \<and> set (generateRandomString_loop rnd len i result) \<subseteq> set result \<union> set characters"
  using rnd
proof (induction rnd len i result rule: generateRandomString_loop.induct)
  case (1 rnd len i result)
  show ?case
  proof (cases "i < len")
    case True
    from charAt_draw [of "rnd i"] "1.prems" obtain c where
      c: "charAt characters \<lfloor>rnd i * of_nat (length characters)\<rfloor> = [c]" "c \<in> set characters"
      by blast
    have step: "generateRandomString_loop rnd len i result =
                generateRandomString_loop rnd len (i + 1) (result @ [c])"
      using True c(1) by (subst generateRandomString_loop.simps) (simp only: if_True)
    from "1.IH" [OF True "1.prems"] c True show ?thesis
      unfolding step by auto
  next
    case False
    have stop: "generateRandomString_loop rnd len i result = result"
      using False by (subst generateRandomString_loop.simps) (simp only: if_False)
    show ?thesis unfolding stop using False by simp
  qed
qed

lemma draws_same_verifier:
  "generateRandomString draws_zero 64 = generateRandomString draws_small 64"
  by code_simp

lemma length_generateRandomString:
  "(\<And>k. 0 \<le> rnd k \<and> rnd k < 1) \<Longrightarrow> length (generateRandomString rnd len) = len"
  using loop_props [of rnd len 0 "[]"] by (simp add: generateRandomString_def)

lemma set_generateRandomString:
  "(\<And>k. 0 \<le> rnd k \<and> rnd k < 1) \<Longrightarrow> set (generateRandomString rnd len) \<subseteq> set characters"
  using loop_props [of rnd len 0 "[]"] by (simp add: generateRandomString_def)

lemma length_sha256: "length (sha256 m) = 32"
  by (simp add: sha256_def digest_bytes_def be32_def split: prod.split)

lemma length_digest_hex: "length (digest_hex bs) = 2 * length bs"
  by (induction bs) (simp_all add: digest_hex_def)

lemma hex_digit_lower: "hex_digit n \<in> set ''0123456789abcdef''"
proof -
  have "n mod 16 < length ''0123456789abcdef''" by simp
  then show ?thesis unfolding hex_digit_def by (rule nth_mem)
qed

lemma set_digest_hex: "set (digest_hex bs) \<subseteq> set ''0123456789abcdef''"
proof (induction bs)
  case Nil
  show ?case by (simp add: digest_hex_def)
next
  case (Cons b bs)
  have "digest_hex (b # bs) =
          hex_digit (unat b div 16) # hex_digit (unat b mod 16) # digest_hex bs"
    by (simp add: digest_hex_def)
  with Cons hex_digit_lower [of "unat b div 16"] hex_digit_lower [of "unat b mod 16"]
  show ?case by (simp only: set_simps insert_subset) 
qed

lemma qs_escape_unreserved: "set s \<subseteq> set qs_unreserved \<Longrightarrow> qs_escape s = s"
  by (induction s) (simp_all add: qs_escape_def)

lemma hex_unreserved: "set ''0123456789abcdef'' \<subseteq> set qs_unreserved"
  by (simp add: qs_unreserved_def)

lemma qs_escape_challenge: "qs_escape (digest_hex bs) = digest_hex bs"
  using set_digest_hex [of bs] hex_unreserved by (intro qs_escape_unreserved) blast

lemma qs_escape_names:
  "qs_escape ''client_key'' = ''client_key''"
  "qs_escape ''redirect_uri'' = ''redirect_uri''"
  "qs_escape ''response_type'' = ''response_type''"
  "qs_escape ''code'' = ''code''"
  "qs_escape ''scope'' = ''scope''"
  "qs_escape ''state'' = ''state''"
  "qs_escape ''secureRandomState123'' = ''secureRandomState123''"
  "qs_escape ''code_challenge'' = ''code_challenge''"
  "qs_escape ''code_challenge_method'' = ''code_challenge_method''"
  "qs_escape ''S256'' = ''S256''"
  by code_simp+

lemma qs_escape_scope:
  "qs_escape ''user.info.basic,user.info.profile,user.info.stats,video.publish,video.upload''
   = ''user.info.basic%2Cuser.info.profile%2Cuser.info.stats%2Cvideo.publish%2Cvideo.upload''"
  by code_simp

lemma characters_literal:
  "characters = ''ABCDEFGHIJKLMNOPQRSTUVWXYZ'' @ ''abcdefghijklmnopqrstuvwxyz''
                 @ ''0123456789'' @ ''-._~''"
  by (simp add: characters_def)

lemma characters_distinct: "distinct characters"
  by (simp add: characters_def)

text \<open>
  C7. The challenge that \<^verbatim>\<open>generatePKCE\<close> returns is the hexadecimal SHA-256 digest of
  the verifier it returns, so it depends on the random numbers through the verifier only:
  two runs with the same verifier have the same challenge.
\<close>

theorem generatePKCE_challenge_deterministic:
  "challenge (generatePKCE rnd) = digest_hex (sha256 (update (verifier (generatePKCE rnd))))
   \<and> (verifier (generatePKCE rnd) = verifier (generatePKCE rnd')
        \<longrightarrow> challenge (generatePKCE rnd) = challenge (generatePKCE rnd'))"
  by (simp add: generatePKCE_def Let_def)

theorem generatePKCE_challenge_deterministic_witness:
  "verifier (generatePKCE draws_zero) = verifier (generatePKCE draws_small)
   \<and> challenge (generatePKCE draws_zero) = challenge (generatePKCE draws_small)"
proof -
  have v: "verifier (generatePKCE draws_zero) = verifier (generatePKCE draws_small)"
    by (simp add: generatePKCE_def Let_def draws_same_verifier)
  from generatePKCE_challenge_deterministic [of draws_zero draws_small] v show ?thesis by blast
qed

text \<open>
  C10. With the results of \<^verbatim>\<open>Math.random()\<close> in \<open>[0, 1)\<close>, the verifier has 64 characters
  of the alphabet of 66 distinct characters (\<open>A-Z\<close>, \<open>a-z\<close>, \<open>0-9\<close>, \<open>-\<close>, \<open>.\<close>,
  \<open>_\<close>, \<open>~\<close>), the challenge is the SHA-256 digest of the verifier in 64 lowercase
  hexadecimal digits, and \<^verbatim>\<open>/auth/login\<close> redirects with that challenge as
  \<^verbatim>\<open>code_challenge\<close> and \<^verbatim>\<open>S256\<close> as \<^verbatim>\<open>code_challenge_method\<close>, keeping the verifier.
\<close>

theorem generatePKCE_verifier_and_challenge:
  assumes rnd: "\<forall>k. 0 \<le> Math_random w k \<and> Math_random w k < 1"
  shows "let p = generatePKCE (Math_random w) in
           length (verifier p) = 64 \<and> 43 \<le> length (verifier p)
         \<and> length (verifier p) \<le> 128 \<and> set (verifier p) \<subseteq> set characters
         \<and> characters = ''ABCDEFGHIJKLMNOPQRSTUVWXYZ'' @ ''abcdefghijklmnopqrstuvwxyz''
                            @ ''0123456789'' @ ''-._~''
         \<and> length characters = 66 \<and> distinct characters
         \<and> challenge p = digest_hex (sha256 (update (verifier p)))
         \<and> length (challenge p) = 64 \<and> set (challenge p) \<subseteq> set ''0123456789abcdef''
         \<and> auth_login w s =
             (\<lparr>status = 302,
               body = Redirect
                 (''https://www.tiktok.com/v2/auth/authorize/?client_key=''
                  @ qs_escape (TIKTOK_CLIENT_KEY w)
                  @ ''&redirect_uri='' @ qs_escape (TIKTOK_REDIRECT_URI w)
                  @ ''&response_type=code&scope=user.info.basic%2Cuser.info.profile''
                  @ ''%2Cuser.info.stats%2Cvideo.publish%2Cvideo.upload''
                  @ ''&state=secureRandomState123&code_challenge='' @ challenge p
                  @ ''&code_challenge_method=S256'')\<rparr>,
              s\<lparr>codeVerifier := Some (verifier p)\<rparr>)"
proof -
  have r: "\<And>k. 0 \<le> Math_random w k \<and> Math_random w k < 1" using rnd by simp
  define v where "v = generateRandomString (Math_random w) 64"
  define c where "c = digest_hex (sha256 (update v))"
  have p: "generatePKCE (Math_random w) = \<lparr>verifier = v, challenge = c\<rparr>"
    by (simp add: generatePKCE_def Let_def v_def c_def)
  have lv: "length v = 64" unfolding v_def by (rule length_generateRandomString [OF r])
  have sv: "set v \<subseteq> set characters" unfolding v_def by (rule set_generateRandomString [OF r])
  have lc: "length c = 64" by (simp add: c_def length_digest_hex length_sha256)
  have sc: "set c \<subseteq> set ''0123456789abcdef''" unfolding c_def by (rule set_digest_hex)
  have ec: "qs_escape c = c" unfolding c_def by (rule qs_escape_challenge)
  have login: "auth_login w s =
             (\<lparr>status = 302,
               body = Redirect
                 (''https://www.tiktok.com/v2/auth/authorize/?client_key=''
                  @ qs_escape (TIKTOK_CLIENT_KEY w)
                  @ ''&redirect_uri='' @ qs_escape (TIKTOK_REDIRECT_URI w)
                  @ ''&response_type=code&scope=user.info.basic%2Cuser.info.profile''
                  @ ''%2Cuser.info.stats%2Cvideo.publish%2Cvideo.upload''
                  @ ''&state=secureRandomState123&code_challenge='' @ c
                  @ ''&code_challenge_method=S256'')\<rparr>,
              s\<lparr>codeVerifier := Some v\<rparr>)"
    by (simp add: auth_login_def p Let_def qs_stringify_def qs_escape_names qs_escape_scope ec)
  show ?thesis
    unfolding p Let_def
    using lv sv lc sc login length_characters characters_distinct characters_literal
    by (simp add: c_def)
qed

theorem generatePKCE_verifier_and_challenge_witness:
  "let p = generatePKCE (Math_random quiet_world) in
           length (verifier p) = 64 \<and> 43 \<le> length (verifier p)
         \<and> length (verifier p) \<le> 128 \<and> set (verifier p) \<subseteq> set characters
         \<and> characters = ''ABCDEFGHIJKLMNOPQRSTUVWXYZ'' @ ''abcdefghijklmnopqrstuvwxyz''
                            @ ''0123456789'' @ ''-._~''
         \<and> length characters = 66 \<and> distinct characters
         \<and> challenge p = digest_hex (sha256 (update (verifier p)))
         \<and> length (challenge p) = 64 \<and> set (challenge p) \<subseteq> set ''0123456789abcdef''
         \<and> auth_login quiet_world \<lparr>codeVerifier = None\<rparr> =
             (\<lparr>status = 302,
               body = Redirect
                 (''https://www.tiktok.com/v2/auth/authorize/?client_key=''
                  @ qs_escape (TIKTOK_CLIENT_KEY quiet_world)
                  @ ''&redirect_uri='' @ qs_escape (TIKTOK_REDIRECT_URI quiet_world)
                  @ ''&response_type=code&scope=user.info.basic%2Cuser.info.profile''
                  @ ''%2Cuser.info.stats%2Cvideo.publish%2Cvideo.upload''
                  @ ''&state=secureRandomState123&code_challenge='' @ challenge p
                  @ ''&code_challenge_method=S256'')\<rparr>,
              \<lparr>codeVerifier = None\<rparr>\<lparr>codeVerifier := Some (verifier p)\<rparr>)"
proof -
  have h: "\<forall>k. 0 \<le> Math_random quiet_world k \<and> Math_random quiet_world k < 1"
    by (simp add: quiet_world_def draws_zero_def)
  show ?thesis by (rule generatePKCE_verifier_and_challenge [OF h])
qed

section \<open>The slot of the code verifier\<close>

lemma verifier_draws_zero: "generateRandomString draws_zero 64 = replicate 64 (CHR ''A'')"
  by code_simp

lemma auth_login_state:
  "snd (auth_login w s) = s\<lparr>codeVerifier := Some (generateRandomString (Math_random w) 64)\<rparr>"
  by (simp add: auth_login_def generatePKCE_def Let_def)

text \<open>
  C3, as the spec states it, fails: after a login, a callback whose code the platform
  refuses sends the pending verifier to the token endpoint and answers 400, and the
  verifier stays in the slot.
\<close>

theorem callback_keeps_verifier_counterexample:
  "status (fst (auth_callback world_exchange_error (Some ''code-1'')
                  (snd (auth_login world_exchange_error fresh)))) = 400
   \<and> snd (snd (auth_callback world_exchange_error (Some ''code-1'')
                  (snd (auth_login world_exchange_error fresh)))) =
       [Post token_url
          (Form [(''client_key'', ''key''), (''client_secret'', ''secret''),
                 (''code'', ''code-1''), (''grant_type'', ''authorization_code''),
                 (''redirect_uri'', ''http://localhost:7777/auth/callback''),
                 (''code_verifier'', replicate 64 (CHR ''A''))])
          form_headers]
   \<and> codeVerifier (fst (snd (auth_callback world_exchange_error (Some ''code-1'')
                  (snd (auth_login world_exchange_error fresh))))) =
       Some (replicate 64 (CHR ''A''))"
proof -
  have s: "snd (auth_login world_exchange_error fresh) =
             \<lparr>codeVerifier = Some (replicate 64 (CHR ''A''))\<rparr>"
    by (simp add: auth_login_state world_exchange_error_def quiet_world_def fresh_def
          verifier_draws_zero)
  have ne: "replicate 64 (CHR ''A'') \<noteq> []"
    by (simp add: replicate_empty del: replicate_eq_replicate)
  show ?thesis
    unfolding s using ne
    by (simp add: auth_callback_def world_exchange_error_def quiet_world_def
          platform_error_def truthy_def template_def exchange_request_def Let_def)
qed

text \<open>
  C3, amended. Every \<^verbatim>\<open>/auth/login\<close> sets the slot to the verifier it generates, whatever
  the slot held (a second login overwrites the pending verifier; the slot holds at most one
  value). \<^verbatim>\<open>/auth/callback\<close> clears the slot exactly when it answers 200, that is when the
  code and the verifier are there, the token endpoint answers without an error and with an
  access token, and the tokens are saved; otherwise it leaves the slot as it was.
\<close>

theorem codeVerifier_slot:
  "codeVerifier (snd (auth_login w s)) = Some (verifier (generatePKCE (Math_random w)))
   \<and> codeVerifier (fst (snd (auth_callback w code s))) =
       (if status (fst (auth_callback w code s)) = 200 then None else codeVerifier s)
   \<and> (status (fst (auth_callback w code s)) = 200 \<longleftrightarrow>
        truthy code \<and> truthy (codeVerifier s)
        \<and> (\<exists>d. oauth_token w (exchange_request w code s) = Fulfilled d
                 \<and> \<not> truthy (tb_error d) \<and> truthy (tb_access_token d)
                 \<and> saveTokens w \<lparr>access_token = tb_access_token d,
                         refresh_token = tb_refresh_token d,
                         expires_at = Date_now w 0 + tb_expires_in d * 1000\<rparr> = None))"
  by (auto simp add: auth_login_def auth_callback_def Let_def split: reply.split option.split)

theorem codeVerifier_slot_witness:
  "codeVerifier (snd (auth_login world_exchange_ok (snd (auth_login world_exchange_ok fresh)))) =
     Some (verifier (generatePKCE draws_zero))
   \<and> status (fst (auth_callback world_exchange_ok (Some ''code-1'')
                 (snd (auth_login world_exchange_ok fresh)))) = 200
   \<and> codeVerifier (fst (snd (auth_callback world_exchange_ok (Some ''code-1'')
                 (snd (auth_login world_exchange_ok fresh))))) = None"
proof -
  let ?s = "snd (auth_login world_exchange_ok fresh)"
  have s: "?s = \<lparr>codeVerifier = Some (replicate 64 (CHR ''A''))\<rparr>"
    by (simp add: auth_login_state world_exchange_ok_def quiet_world_def fresh_def
          verifier_draws_zero)
  have ne: "replicate 64 (CHR ''A'') \<noteq> []"
    by (simp add: replicate_empty del: replicate_eq_replicate)
  have ok: "status (fst (auth_callback world_exchange_ok (Some ''code-1'') ?s)) = 200"
    unfolding s using ne
    by (simp add: auth_callback_def world_exchange_ok_def quiet_world_def
          platform_tokens_def truthy_def template_def exchange_request_def Let_def)
  have r: "Math_random world_exchange_ok = draws_zero"
    by (simp add: world_exchange_ok_def quiet_world_def)
  from codeVerifier_slot [of world_exchange_ok ?s "Some ''code-1''"] ok r show ?thesis
    by simp
qed

section \<open>The proxy handlers: missing input and failures of the platform\<close>

text \<open>
  C4, as the spec states it, fails: the handler asks for the access token first, so without
  stored tokens a request without \<^verbatim>\<open>fields\<close> is answered 500, not 400.
\<close>

theorem user_info_no_fields_no_tokens_counterexample:
  "fst (user_info quiet_world None) =
     \<lparr>status = 500,
      body = SendJson (JObj
        [(''error'', JStr ''User info request failed''),
         (''details'', JStr (''No tokens available. Please complete OAuth flow first. ''
                            @ ''Visit http://localhost:7777/auth/login''))])\<rparr>"
  by (simp add: user_info_def getValidAccessToken_def quiet_world_def failure_def
        error_details_def Error_def no_tokens_message_def)

text \<open>
  C4, amended. A request of \<^verbatim>\<open>/user/info\<close> without \<^verbatim>\<open>fields\<close> (or with an empty one) is
  answered 400 with the message that the parameter is required when the access token is
  obtained, and 500 with the details of the error when \<^verbatim>\<open>getValidAccessToken\<close> throws; the
  user-info endpoint of the platform is not called.
\<close>

theorem user_info_no_fields:
  "\<not> truthy fields' \<Longrightarrow>
     fst (user_info w fields') =
       (case fst (getValidAccessToken w) of
          Inl err \<Rightarrow>
            \<lparr>status = 500,
             body = SendJson (JObj [(''error'', JStr ''User info request failed''),
                                    (''details'', error_details err)])\<rparr>
        | Inr token \<Rightarrow>
            \<lparr>status = 400,
             body = SendJson (JObj [(''error'', JStr ''fields query parameter is required''),
                                    (''example'',
                                     JStr ''GET /user/info?fields=open_id,union_id,avatar_url'')])\<rparr>)
     \<and> snd (user_info w fields') = snd (getValidAccessToken w)"
  by (cases "getValidAccessToken w")
     (simp add: user_info_def failure_def fields_required_def split: sum.split)

theorem user_info_no_fields_witness:
  "user_info world_61 None =
     (\<lparr>status = 400,
       body = SendJson (JObj [(''error'', JStr ''fields query parameter is required''),
                              (''example'',
                               JStr ''GET /user/info?fields=open_id,union_id,avatar_url'')])\<rparr>, [])"
proof -
  have f: "\<not> truthy None" by (simp add: truthy_def)
  have g: "getValidAccessToken world_61 = (Inr (Some ''A''), [])"
    by (simp add: getValidAccessToken_def world_61_def quiet_world_def stored_def)
  from user_info_no_fields [OF f, of world_61] g show ?thesis
    by (simp add: prod_eq_iff)
qed

lemma creator_info_rejected:
  "getValidAccessToken w = (Inr token, tr) \<Longrightarrow>
   axios w (creator_info_request token) = Rejected err \<Longrightarrow>
   creator_info w = (\<lparr>status = 500, body = Send ''API call failed''\<rparr>,
                     tr @ [creator_info_request token])"
  by (simp add: creator_info_def Let_def)

lemma creator_info_fulfilled:
  "getValidAccessToken w = (Inr token, tr) \<Longrightarrow>
   axios w (creator_info_request token) = Fulfilled d \<Longrightarrow>
   creator_info w = (\<lparr>status = 200, body = SendJson d\<rparr>, tr @ [creator_info_request token])"
  by (simp add: creator_info_def Let_def)

lemma user_info_rejected:
  "getValidAccessToken w = (Inr token, tr) \<Longrightarrow> truthy fields' \<Longrightarrow>
   axios w (user_info_request token fields') = Rejected err \<Longrightarrow>
   user_info w fields' = (failure ''User info request failed'' err,
                          tr @ [user_info_request token fields'])"
  by (simp add: user_info_def Let_def)

lemma user_info_fulfilled:
  "getValidAccessToken w = (Inr token, tr) \<Longrightarrow> truthy fields' \<Longrightarrow>
   axios w (user_info_request token fields') = Fulfilled d \<Longrightarrow>
   user_info w fields' = (\<lparr>status = 200, body = SendJson d\<rparr>,
                          tr @ [user_info_request token fields'])"
  by (simp add: user_info_def Let_def)

lemma video_status_rejected:
  "getValidAccessToken w = (Inr token, tr) \<Longrightarrow> truthy pid \<Longrightarrow>
   axios w (status_request token pid) = Rejected err \<Longrightarrow>
   video_status w pid = (failure ''Status check failed'' err, tr @ [status_request token pid])"
  by (simp add: video_status_def Let_def)

lemma video_status_fulfilled:
  "getValidAccessToken w = (Inr token, tr) \<Longrightarrow> truthy pid \<Longrightarrow>
   axios w (status_request token pid) = Fulfilled d \<Longrightarrow>
   video_status w pid = (\<lparr>status = 200, body = SendJson d\<rparr>, tr @ [status_request token pid])"
  by (simp add: video_status_def Let_def)

text \<open>Whatever the \<^verbatim>\<open>try\<close> block of the upload throws is answered 500 with its details.\<close>

lemma video_upload_catch:
  "video_upload_try w fs file = (Inl err, fs', tr) \<Longrightarrow>
   fst (video_upload w fs (Some file)) = failure ''Video upload failed'' err"
  by (simp add: video_upload_def)

lemma video_upload_init_rejected:
  "getValidAccessToken w = (Inr token, tr) \<Longrightarrow>
   video_init w (init_request token (f_size file)) = Rejected err \<Longrightarrow>
   video_upload_try w fs file = (Inl err, fs, tr @ [init_request token (f_size file)])"
  by (simp add: video_upload_try_def init_step_def Let_def)

lemma video_upload_init_refused:
  "getValidAccessToken w = (Inr token, tr) \<Longrightarrow>
   video_init w (init_request token (f_size file)) = Fulfilled b \<Longrightarrow>
   ib_error b = Some e \<Longrightarrow> ie_code e \<noteq> ''ok'' \<Longrightarrow> fs (f_path file) = Some content \<Longrightarrow>
   video_upload_try w fs file =
     (Inl (Error (''TikTok API Error: '' @ ie_message e)), fs(f_path file := None),
      tr @ [init_request token (f_size file), UnlinkSync (f_path file)])"
  by (simp add: video_upload_try_def init_step_def Let_def unlinkSync_def existsSync_def)

lemma video_upload_put_rejected:
  "getValidAccessToken w = (Inr token, tr) \<Longrightarrow>
   video_init w (init_request token (f_size file)) = Fulfilled b \<Longrightarrow>
   init_accepted b \<Longrightarrow> ib_data b = Some d \<Longrightarrow> fs (f_path file) = Some content \<Longrightarrow>
   axios w (put_request (upload_url d) content (f_size file)) = Rejected err \<Longrightarrow>
   video_upload_try w fs file =
     (Inl err, fs, tr @ [init_request token (f_size file),
                         put_request (upload_url d) content (f_size file)])"
  by (simp add: video_upload_try_def init_step_def after_init_def upload_step_def Let_def
        readFileSync_def init_accepted_def split: option.splits)

lemma direct_post_init_rejected:
  "getValidAccessToken w = (Inr token, tr) \<Longrightarrow> truthy file_path \<Longrightarrow> truthy title \<Longrightarrow>
   fs (template file_path) = Some content \<Longrightarrow>
   video_init w (direct_post_init_request token (template title) (length content)) = Rejected err \<Longrightarrow>
   fst (video_direct_post w fs file_path title) = failure ''Video upload failed'' err"
  by (simp add: video_direct_post_def Let_def)

lemma direct_post_init_refused:
  "getValidAccessToken w = (Inr token, tr) \<Longrightarrow> truthy file_path \<Longrightarrow> truthy title \<Longrightarrow>
   fs (template file_path) = Some content \<Longrightarrow>
   video_init w (direct_post_init_request token (template title) (length content)) = Fulfilled b \<Longrightarrow>
   ib_error b = Some e \<Longrightarrow> ie_code e \<noteq> ''ok'' \<Longrightarrow>
   fst (video_direct_post w fs file_path title) =
     failure ''Video upload failed'' (Error (''TikTok API Error: '' @ ie_message e))"
  by (simp add: video_direct_post_def direct_post_upload_def Let_def)

lemma direct_post_put_rejected:
  "getValidAccessToken w = (Inr token, tr) \<Longrightarrow> truthy file_path \<Longrightarrow> truthy title \<Longrightarrow>
   fs (template file_path) = Some content \<Longrightarrow>
   video_init w (direct_post_init_request token (template title) (length content)) = Fulfilled b \<Longrightarrow>
   init_accepted b \<Longrightarrow> ib_data b = Some d \<Longrightarrow>
   axios w (put_request (upload_url d) content (length content)) = Rejected err \<Longrightarrow>
   fst (video_direct_post w fs file_path title) = failure ''Video upload failed'' err"
  by (simp add: video_direct_post_def direct_post_upload_def Let_def readFileSync_def
        init_accepted_def split: option.splits)


text \<open>
  C5, as the spec states it, fails twice. When the platform refuses the call of
  \<^verbatim>\<open>/creator-info\<close> with status 401 and a body, the handler answers 500 with the fixed text
  \<^verbatim>\<open>API call failed\<close>: the body carries no details. When the platform answers the call of
  \<^verbatim>\<open>/user/info\<close> with status 200 and a body that describes an error, the handler relays
  the body with status 200.
\<close>

theorem creator_info_hides_details_counterexample:
  "creator_info world_api_401 =
     (\<lparr>status = 500, body = Send ''API call failed''\<rparr>, [creator_info_request (Some ''A'')])
   \<and> relayed_details (fst (creator_info world_api_401)) = None
   \<and> axios world_api_401 (creator_info_request (Some ''A'')) = Rejected api_401
   \<and> error_details api_401 = invalid_token_body
   \<and> axios world_error_body (user_info_request (Some ''A'') (Some ''open_id'')) =
       Fulfilled invalid_token_body
   \<and> user_info world_error_body (Some ''open_id'') =
       (\<lparr>status = 200, body = SendJson invalid_token_body\<rparr>,
        [user_info_request (Some ''A'') (Some ''open_id'')])"
  by (simp add: creator_info_def user_info_def getValidAccessToken_def world_api_401_def
        world_error_body_def world_61_def quiet_world_def stored_def relayed_details_def
        error_details_def api_401_def invalid_token_body_def json_truthy_def truthy_def Let_def)

text \<open>
  C5, amended. With the access token obtained: when a call of the platform is rejected,
  every proxy handler answers 500; \<^verbatim>\<open>/user/info\<close>, \<^verbatim>\<open>/video/status\<close>,
  \<^verbatim>\<open>/video/upload\<close> and \<^verbatim>\<open>/video/direct-post\<close> put the details of the error
  (\<^verbatim>\<open>err.response.data\<close>, or the message when there is none) under \<^verbatim>\<open>details\<close>, and
  \<^verbatim>\<open>/creator-info\<close> answers with the fixed text \<^verbatim>\<open>API call failed\<close>. A body that the
  platform delivers with a successful status is relayed as it is, with status 200, by
  \<^verbatim>\<open>/creator-info\<close>, \<^verbatim>\<open>/user/info\<close> and \<^verbatim>\<open>/video/status\<close>; the two upload handlers
  answer an initialisation whose error code is not \<^verbatim>\<open>ok\<close> with 500 and the platform's
  message under \<^verbatim>\<open>details\<close>.
\<close>

theorem proxy_upstream_failure:
  assumes tok: "getValidAccessToken w = (Inr token, tr)"
  shows
    "(axios w (creator_info_request token) = Rejected err \<longrightarrow>
        fst (creator_info w) = \<lparr>status = 500, body = Send ''API call failed''\<rparr>)
   \<and> (truthy fields' \<and> axios w (user_info_request token fields') = Rejected err \<longrightarrow>
        fst (user_info w fields') = failure ''User info request failed'' err)
   \<and> (truthy pid \<and> axios w (status_request token pid) = Rejected err \<longrightarrow>
        fst (video_status w pid) = failure ''Status check failed'' err)
   \<and> (video_init w (init_request token (f_size upload)) = Rejected err \<longrightarrow>
        fst (video_upload w fs (Some upload)) = failure ''Video upload failed'' err)
   \<and> (video_init w (init_request token (f_size upload)) = Fulfilled b
        \<and> init_accepted b \<and> ib_data b = Some d \<and> fs (f_path upload) = Some content
        \<and> axios w (put_request (upload_url d) content (f_size upload)) = Rejected err \<longrightarrow>
        fst (video_upload w fs (Some upload)) = failure ''Video upload failed'' err)
   \<and> (truthy file_path \<and> truthy title \<and> fs (template file_path) = Some content
        \<and> video_init w (direct_post_init_request token (template title) (length content))
            = Rejected err \<longrightarrow>
        fst (video_direct_post w fs file_path title) = failure ''Video upload failed'' err)
   \<and> (truthy file_path \<and> truthy title \<and> fs (template file_path) = Some content
        \<and> video_init w (direct_post_init_request token (template title) (length content))
            = Fulfilled b
        \<and> init_accepted b \<and> ib_data b = Some d
        \<and> axios w (put_request (upload_url d) content (length content)) = Rejected err \<longrightarrow>
        fst (video_direct_post w fs file_path title) = failure ''Video upload failed'' err)
   \<and> failure what err =
        \<lparr>status = 500,
         body = SendJson (JObj [(''error'', JStr what), (''details'', error_details err)])\<rparr>
   \<and> relayed_details (failure what err) = Some (error_details err)
   \<and> (axios w (creator_info_request token) = Fulfilled j \<longrightarrow>
        fst (creator_info w) = \<lparr>status = 200, body = SendJson j\<rparr>)
   \<and> (truthy fields' \<and> axios w (user_info_request token fields') = Fulfilled j \<longrightarrow>
        fst (user_info w fields') = \<lparr>status = 200, body = SendJson j\<rparr>)
   \<and> (truthy pid \<and> axios w (status_request token pid) = Fulfilled j \<longrightarrow>
        fst (video_status w pid) = \<lparr>status = 200, body = SendJson j\<rparr>)
   \<and> (video_init w (init_request token (f_size upload)) = Fulfilled b
        \<and> ib_error b = Some e \<and> ie_code e \<noteq> ''ok'' \<and> fs (f_path upload) = Some content \<longrightarrow>
        fst (video_upload w fs (Some upload)) =
          failure ''Video upload failed'' (Error (''TikTok API Error: '' @ ie_message e)))
   \<and> (truthy file_path \<and> truthy title \<and> fs (template file_path) = Some content
        \<and> video_init w (direct_post_init_request token (template title) (length content))
            = Fulfilled b
        \<and> ib_error b = Some e \<and> ie_code e \<noteq> ''ok'' \<longrightarrow>
        fst (video_direct_post w fs file_path title) =
          failure ''Video upload failed'' (Error (''TikTok API Error: '' @ ie_message e)))"
proof -
  have c1: "axios w (creator_info_request token) = Rejected err \<longrightarrow>
        fst (creator_info w) = \<lparr>status = 500, body = Send ''API call failed''\<rparr>"
    using creator_info_rejected [OF tok] by simp
  have c2: "truthy fields' \<and> axios w (user_info_request token fields') = Rejected err \<longrightarrow>
        fst (user_info w fields') = failure ''User info request failed'' err"
    using user_info_rejected [OF tok] by simp
  have c3: "truthy pid \<and> axios w (status_request token pid) = Rejected err \<longrightarrow>
        fst (video_status w pid) = failure ''Status check failed'' err"
    using video_status_rejected [OF tok] by simp
  have c4: "video_init w (init_request token (f_size upload)) = Rejected err \<longrightarrow>
        fst (video_upload w fs (Some upload)) = failure ''Video upload failed'' err"
    using video_upload_catch [OF video_upload_init_rejected [OF tok]] by blast
  have c5: "video_init w (init_request token (f_size upload)) = Fulfilled b
        \<and> init_accepted b \<and> ib_data b = Some d \<and> fs (f_path upload) = Some content
        \<and> axios w (put_request (upload_url d) content (f_size upload)) = Rejected err \<longrightarrow>
        fst (video_upload w fs (Some upload)) = failure ''Video upload failed'' err"
    using video_upload_catch [OF video_upload_put_rejected [OF tok]] by blast
  have c6: "truthy file_path \<and> truthy title \<and> fs (template file_path) = Some content
        \<and> video_init w (direct_post_init_request token (template title) (length content))
            = Rejected err \<longrightarrow>
        fst (video_direct_post w fs file_path title) = failure ''Video upload failed'' err"
    using direct_post_init_rejected [OF tok] by blast
  have c7: "truthy file_path \<and> truthy title \<and> fs (template file_path) = Some content
        \<and> video_init w (direct_post_init_request token (template title) (length content))
            = Fulfilled b
        \<and> init_accepted b \<and> ib_data b = Some d
        \<and> axios w (put_request (upload_url d) content (length content)) = Rejected err \<longrightarrow>
        fst (video_direct_post w fs file_path title) = failure ''Video upload failed'' err"
    using direct_post_put_rejected [OF tok] by blast
  have c8: "failure what err =
        \<lparr>status = 500,
         body = SendJson (JObj [(''error'', JStr what), (''details'', error_details err)])\<rparr>"
    by (simp add: failure_def)
  have c9: "relayed_details (failure what err) = Some (error_details err)"
    by (simp add: failure_def relayed_details_def)
  have c10: "axios w (creator_info_request token) = Fulfilled j \<longrightarrow>
        fst (creator_info w) = \<lparr>status = 200, body = SendJson j\<rparr>"
    using creator_info_fulfilled [OF tok] by simp
  have c11: "truthy fields' \<and> axios w (user_info_request token fields') = Fulfilled j \<longrightarrow>
        fst (user_info w fields') = \<lparr>status = 200, body = SendJson j\<rparr>"
    using user_info_fulfilled [OF tok] by simp
  have c12: "truthy pid \<and> axios w (status_request token pid) = Fulfilled j \<longrightarrow>
        fst (video_status w pid) = \<lparr>status = 200, body = SendJson j\<rparr>"
    using video_status_fulfilled [OF tok] by simp
  have c13: "video_init w (init_request token (f_size upload)) = Fulfilled b
        \<and> ib_error b = Some e \<and> ie_code e \<noteq> ''ok'' \<and> fs (f_path upload) = Some content \<longrightarrow>
        fst (video_upload w fs (Some upload)) =
          failure ''Video upload failed'' (Error (''TikTok API Error: '' @ ie_message e))"
    using video_upload_catch [OF video_upload_init_refused [OF tok]] by blast
  have c14: "truthy file_path \<and> truthy title \<and> fs (template file_path) = Some content
        \<and> video_init w (direct_post_init_request token (template title) (length content))
            = Fulfilled b
        \<and> ib_error b = Some e \<and> ie_code e \<noteq> ''ok'' \<longrightarrow>
        fst (video_direct_post w fs file_path title) =
          failure ''Video upload failed'' (Error (''TikTok API Error: '' @ ie_message e))"
    using direct_post_init_refused [OF tok] by blast
  from c1 c2 c3 c4 c5 c6 c7 c8 c9 c10 c11 c12 c13 c14 show ?thesis
    by (intro conjI)
qed


lemmas scenario_defs =
  world_api_401_def world_error_body_def world_upload_ok_def world_put_fails_def
  world_init_refused_def world_61_def world_59_def quiet_world_def stored_def
  clip_def disk_def init_ok_def init_refused_def api_401_def invalid_token_body_def

theorem proxy_upstream_failure_witness:
  "fst (creator_info world_api_401) = \<lparr>status = 500, body = Send ''API call failed''\<rparr>
   \<and> fst (user_info world_api_401 (Some ''open_id'')) =
       failure ''User info request failed'' api_401
   \<and> fst (video_status world_api_401 (Some ''v_inbox_file~1'')) =
       failure ''Status check failed'' api_401
   \<and> relayed_details (failure ''Status check failed'' api_401) = Some (error_details api_401)
   \<and> fst (video_upload world_61 disk (Some clip)) =
       failure ''Video upload failed'' (Error ''Network Error'')
   \<and> fst (video_direct_post world_61 disk (Some ''/tmp/uploads/3f2a'') (Some ''My clip'')) =
       failure ''Video upload failed'' (Error ''Network Error'')
   \<and> fst (video_upload world_put_fails disk (Some clip)) =
       failure ''Video upload failed'' (Error ''Network Error'')
   \<and> fst (video_direct_post world_put_fails disk (Some ''/tmp/uploads/3f2a'') (Some ''My clip'')) =
       failure ''Video upload failed'' (Error ''Network Error'')
   \<and> fst (creator_info world_error_body) = \<lparr>status = 200, body = SendJson invalid_token_body\<rparr>
   \<and> fst (user_info world_error_body (Some ''open_id'')) =
       \<lparr>status = 200, body = SendJson invalid_token_body\<rparr>
   \<and> fst (video_status world_error_body (Some ''v_inbox_file~1'')) =
       \<lparr>status = 200, body = SendJson invalid_token_body\<rparr>
   \<and> fst (video_upload world_init_refused disk (Some clip)) =
       failure ''Video upload failed'' (Error ''TikTok API Error: Too many pending shares'')
   \<and> fst (video_direct_post world_init_refused disk (Some ''/tmp/uploads/3f2a'')
              (Some ''My clip'')) =
       failure ''Video upload failed'' (Error ''TikTok API Error: Too many pending shares'')"
proof -
  let ?A = "Some ''A''"
  let ?p = "Some ''/tmp/uploads/3f2a''"
  let ?t = "Some ''My clip''"
  let ?d = "\<lparr>publish_id = ''v_inbox_file~1'',
             upload_url = ''https://open-upload.tiktokapis.com/video/?upload_id=1''\<rparr>"
  let ?e = "\<lparr>ie_code = ''spam_risk_too_many_pending_share'',
             ie_message = ''Too many pending shares''\<rparr>"
  have tr: "truthy (Some ''open_id'')" "truthy (Some ''v_inbox_file~1'')" "truthy ?p" "truthy ?t"
    by (simp_all add: truthy_def)
  have dsk: "disk (f_path clip) = Some [1, 2, 3]" "disk (template ?p) = Some [1, 2, 3]"
    by (simp_all add: disk_def clip_def template_def)
  have t1: "getValidAccessToken world_api_401 = (Inr ?A, [])"
    by (simp add: getValidAccessToken_def scenario_defs)
  have t2: "getValidAccessToken world_61 = (Inr ?A, [])"
    by (simp add: getValidAccessToken_def scenario_defs)
  have t3: "getValidAccessToken world_put_fails = (Inr ?A, [])"
    by (simp add: getValidAccessToken_def scenario_defs)
  have t4: "getValidAccessToken world_error_body = (Inr ?A, [])"
    by (simp add: getValidAccessToken_def scenario_defs)
  have t5: "getValidAccessToken world_init_refused = (Inr ?A, [])"
    by (simp add: getValidAccessToken_def scenario_defs)
  have r1: "axios world_api_401 req = Rejected api_401" for req
    by (simp add: scenario_defs)
  have r2: "video_init world_61 req = Rejected (Error ''Network Error'')" for req
    by (simp add: scenario_defs)
  have r3: "video_init world_put_fails req = Fulfilled init_ok"
           "axios world_put_fails req' = Rejected (Error ''Network Error'')" for req req'
    by (simp_all add: scenario_defs)
  have r4: "axios world_error_body req = Fulfilled invalid_token_body" for req
    by (simp add: scenario_defs)
  have r5: "video_init world_init_refused req = Fulfilled init_refused" for req
    by (simp add: scenario_defs)
  have ok: "init_accepted init_ok" "ib_data init_ok = Some ?d"
    by (simp_all add: init_accepted_def init_ok_def)
  have no: "ib_error init_refused = Some ?e" "ie_code ?e \<noteq> ''ok''"
           "ie_message ?e = ''Too many pending shares''"
    by (simp_all add: init_refused_def)
  have sz: "f_size clip = 3" "length [1, 2, 3 :: byte] = 3"
    by (simp_all add: clip_def)
  note A = proxy_upstream_failure [OF t1, where err = api_401 and fields' = "Some ''open_id''"
      and pid = "Some ''v_inbox_file~1''" and what = "''Status check failed''"]
  note B = proxy_upstream_failure [OF t2, where err = "Error ''Network Error''" and upload = clip and fs = disk
      and file_path = ?p and title = ?t and content = "[1, 2, 3]"]
  note C = proxy_upstream_failure [OF t3, where err = "Error ''Network Error''" and upload = clip and fs = disk
      and file_path = ?p and title = ?t and content = "[1, 2, 3]" and b = init_ok and d = ?d]
  note D = proxy_upstream_failure [OF t4, where j = invalid_token_body and fields' = "Some ''open_id''"
      and pid = "Some ''v_inbox_file~1''"]
  note E = proxy_upstream_failure [OF t5, where upload = clip and fs = disk and file_path = ?p and title = ?t
      and content = "[1, 2, 3]" and b = init_refused and e = ?e]
  have a1: "fst (creator_info world_api_401) = \<lparr>status = 500, body = Send ''API call failed''\<rparr>"
    by (rule mp [OF A [THEN conjunct1]]) (simp only: r1)
  have a2: "fst (user_info world_api_401 (Some ''open_id'')) =
        failure ''User info request failed'' api_401"
    by (rule mp [OF A [THEN conjunct2, THEN conjunct1]]) (simp only: r1 tr simp_thms)
  have a3: "fst (video_status world_api_401 (Some ''v_inbox_file~1'')) =
        failure ''Status check failed'' api_401"
    by (rule mp [OF A [THEN conjunct2, THEN conjunct2, THEN conjunct1]]) (simp only: r1 tr simp_thms)
  have a9: "relayed_details (failure ''Status check failed'' api_401) = Some (error_details api_401)"
    by (rule A [THEN conjunct2, THEN conjunct2, THEN conjunct2, THEN conjunct2, THEN conjunct2, THEN conjunct2, THEN conjunct2, THEN conjunct2, THEN conjunct1])
  have b4: "fst (video_upload world_61 disk (Some clip)) =
             failure ''Video upload failed'' (Error ''Network Error'')"
    by (rule mp [OF B [THEN conjunct2, THEN conjunct2, THEN conjunct2, THEN conjunct1]]) (simp only: r2)
  have b6: "fst (video_direct_post world_61 disk ?p ?t) =
             failure ''Video upload failed'' (Error ''Network Error'')"
    by (rule mp [OF B [THEN conjunct2, THEN conjunct2, THEN conjunct2, THEN conjunct2, THEN conjunct2, THEN conjunct1]]) (simp only: r2 tr dsk simp_thms)
  have c5: "fst (video_upload world_put_fails disk (Some clip)) =
             failure ''Video upload failed'' (Error ''Network Error'')"
    by (rule mp [OF C [THEN conjunct2, THEN conjunct2, THEN conjunct2, THEN conjunct2, THEN conjunct1]]) (simp only: r3 dsk ok simp_thms)
  have c7: "fst (video_direct_post world_put_fails disk ?p ?t) =
             failure ''Video upload failed'' (Error ''Network Error'')"
    by (rule mp [OF C [THEN conjunct2, THEN conjunct2, THEN conjunct2, THEN conjunct2, THEN conjunct2, THEN conjunct2, THEN conjunct1]]) (simp only: r3 tr dsk ok simp_thms)
  have d10: "fst (creator_info world_error_body) =
             \<lparr>status = 200, body = SendJson invalid_token_body\<rparr>"
    by (rule mp [OF D [THEN conjunct2, THEN conjunct2, THEN conjunct2, THEN conjunct2, THEN conjunct2, THEN conjunct2, THEN conjunct2, THEN conjunct2, THEN conjunct2, THEN conjunct1]]) (simp only: r4)
  have d11: "fst (user_info world_error_body (Some ''open_id'')) =
             \<lparr>status = 200, body = SendJson invalid_token_body\<rparr>"
    by (rule mp [OF D [THEN conjunct2, THEN conjunct2, THEN conjunct2, THEN conjunct2, THEN conjunct2, THEN conjunct2, THEN conjunct2, THEN conjunct2, THEN conjunct2, THEN conjunct2, THEN conjunct1]]) (simp only: r4 tr simp_thms)
  have d12: "fst (video_status world_error_body (Some ''v_inbox_file~1'')) =
             \<lparr>status = 200, body = SendJson invalid_token_body\<rparr>"
    by (rule mp [OF D [THEN conjunct2, THEN conjunct2, THEN conjunct2, THEN conjunct2, THEN conjunct2, THEN conjunct2, THEN conjunct2, THEN conjunct2, THEN conjunct2, THEN conjunct2, THEN conjunct2, THEN conjunct1]]) (simp only: r4 tr simp_thms)
  have e13: "fst (video_upload world_init_refused disk (Some clip)) =
             failure ''Video upload failed'' (Error (''TikTok API Error: '' @ ie_message ?e))"
    by (rule mp [OF E [THEN conjunct2, THEN conjunct2, THEN conjunct2, THEN conjunct2, THEN conjunct2, THEN conjunct2, THEN conjunct2, THEN conjunct2, THEN conjunct2, THEN conjunct2, THEN conjunct2, THEN conjunct2, THEN conjunct1]]) (simp only: r5 dsk no simp_thms)
  have e14: "fst (video_direct_post world_init_refused disk ?p ?t) =
             failure ''Video upload failed'' (Error (''TikTok API Error: '' @ ie_message ?e))"
    by (rule mp [OF E [THEN conjunct2, THEN conjunct2, THEN conjunct2, THEN conjunct2, THEN conjunct2, THEN conjunct2, THEN conjunct2, THEN conjunct2, THEN conjunct2, THEN conjunct2, THEN conjunct2, THEN conjunct2, THEN conjunct2]]) (simp only: r5 tr dsk no simp_thms)
  have msg: "''TikTok API Error: '' @ ie_message ?e = ''TikTok API Error: Too many pending shares''"
    by simp
  from a1 a2 a3 a9 b4 b6 c5 c7 d10 d11 d12 e13 [unfolded msg] e14 [unfolded msg]
  show ?thesis by (intro conjI)
qed

section \<open>The upload: the temporary file, the chunk count and the single transfer\<close>

lemma upload_step_files:
  "upload_step w fs file d = (r, fs', tr) \<Longrightarrow>
     (case r of Inl err \<Rightarrow> fs' = fs | Inr res \<Rightarrow> fs' = fs(f_path file := None))"
  by (auto simp add: upload_step_def readFileSync_def unlinkSync_def existsSync_def Let_def
        split: sum.splits option.splits reply.splits if_splits)

lemma init_step_files:
  "init_step w fs file token = (r, fs', tr) \<Longrightarrow>
     (case r of Inl err \<Rightarrow> fs' = fs \<or> fs' = fs(f_path file := None)
              | Inr res \<Rightarrow> fs' = fs(f_path file := None))"
  by (auto simp add: init_step_def after_init_def unlinkSync_def existsSync_def Let_def
        split: sum.splits option.splits reply.splits if_splits prod.splits
        dest!: upload_step_files)

lemma video_upload_try_files:
  "video_upload_try w fs file = (r, fs', tr) \<Longrightarrow>
     (case r of Inl err \<Rightarrow> fs' = fs \<or> fs' = fs(f_path file := None)
              | Inr res \<Rightarrow> fs' = fs(f_path file := None))"
  by (auto simp add: video_upload_try_def split: sum.splits prod.splits dest!: init_step_files)

text \<open>
  C8. After a request of \<^verbatim>\<open>/video/upload\<close> that carries a file (stored by \<^verbatim>\<open>multer\<close> under
  a path that is not empty), the temporary file does not exist any more, whether the
  upload went through or failed at any step; the file operations of the handler touch
  no other file (what \<^verbatim>\<open>saveTokens\<close> writes on a refresh is an entry of the trace, not
  a change of this map, and removing a file that exists does not fail in this model of
  the file system).
\<close>

theorem video_upload_removes_file:
  "f_path upload \<noteq> [] \<Longrightarrow>
     fst (snd (video_upload w fs (Some upload))) (f_path upload) = None
     \<and> (\<forall>p. p \<noteq> f_path upload \<longrightarrow> fst (snd (video_upload w fs (Some upload))) p = fs p)"
proof -
  assume p: "f_path upload \<noteq> []"
  obtain r fs' tr where t: "video_upload_try w fs upload = (r, fs', tr)"
    by (cases "video_upload_try w fs upload")
  from video_upload_try_files [OF t] p t show ?thesis
    by (cases r) (auto simp add: video_upload_def existsSync_def)
qed


theorem video_upload_removes_file_witness:
  "disk ''/tmp/uploads/3f2a'' = Some [1, 2, 3]
   \<and> status (fst (video_upload world_upload_ok disk (Some clip))) = 200
   \<and> fst (snd (video_upload world_upload_ok disk (Some clip))) ''/tmp/uploads/3f2a'' = None
   \<and> fst (snd (video_upload world_upload_ok disk (Some clip))) ''/tmp/uploads/0b9e''
       = Some [4, 5]
   \<and> status (fst (video_upload world_61 disk (Some clip))) = 500
   \<and> fst (snd (video_upload world_61 disk (Some clip))) ''/tmp/uploads/3f2a'' = None"
proof -
  have p: "f_path clip \<noteq> []" by (simp add: clip_def)
  have q: "f_path clip = ''/tmp/uploads/3f2a''" by (simp add: clip_def)
  have t: "getValidAccessToken world_upload_ok = (Inr (Some ''A''), [])"
          "getValidAccessToken world_61 = (Inr (Some ''A''), [])"
    by (simp_all add: getValidAccessToken_def world_upload_ok_def world_61_def quiet_world_def
          stored_def)
  have r: "video_init world_upload_ok req = Fulfilled init_ok"
          "axios world_upload_ok req' = Fulfilled (JObj [])"
          "video_init world_61 req = Rejected (Error ''Network Error'')" for req req'
    by (simp_all add: world_upload_ok_def world_61_def quiet_world_def)
  have ok: "status (fst (video_upload world_upload_ok disk (Some clip))) = 200"
    by (simp add: video_upload_def video_upload_try_def t r init_step_def after_init_def
          upload_step_def readFileSync_def unlinkSync_def existsSync_def Let_def uploaded_def
          init_ok_def disk_def clip_def)
  have ko: "status (fst (video_upload world_61 disk (Some clip))) = 500"
    by (simp add: video_upload_def video_upload_try_def t r init_step_def Let_def failure_def
          existsSync_def disk_def clip_def)
  from video_upload_removes_file [OF p, of world_upload_ok disk]
    video_upload_removes_file [OF p, of world_61 disk] ok ko
  show ?thesis unfolding q by (simp add: disk_def)
qed

lemma getValidAccessToken_no_put: "filter is_put (snd (getValidAccessToken w)) = []"
  by (simp add: getValidAccessToken_def refresh_def refresh_request_def is_put_def Let_def
        split: sum.split option.split reply.split prod.split)

lemma chunkSize_min: "chunkSize s = min s (10 * 1024 * 1024)"
  by (simp add: chunkSize_def)

lemma totalChunkCount_many:
  assumes "10 * 1024 * 1024 < s"
  shows "\<exists>n. totalChunkCount s = Some n \<and> 1 < n"
proof -
  have "(1 :: rat) < of_nat s / 10485760" using assms by simp
  then have "1 < \<lceil>(of_nat s :: rat) / 10485760\<rceil>" by (simp add: less_ceiling_iff)
  then show ?thesis using assms
    by (simp add: totalChunkCount_def Math_ceil_div_def chunkSize_def)
qed

lemma totalChunkCount_zero: "totalChunkCount 0 = None"
  by (simp add: totalChunkCount_def Math_ceil_div_def chunkSize_def)

lemma is_put_simps:
  "is_put (init_request token s) = False"
  "is_put (UnlinkSync p) = False"
  "is_put (put_request url content s) = True"
  by (simp_all add: is_put_def init_request_def put_request_def)

lemma upload_step_puts:
  "upload_step w fs file d = (r, fs', tr) \<Longrightarrow>
     filter is_put tr =
       (case fs (f_path file) of
          None \<Rightarrow> []
        | Some content \<Rightarrow> [put_request (upload_url d) content (f_size file)])"
  by (auto simp add: upload_step_def readFileSync_def unlinkSync_def existsSync_def Let_def
        is_put_simps split: sum.splits option.splits reply.splits if_splits)

lemma init_step_trace:
  "init_step w fs file token = (r, fs', tr) \<Longrightarrow>
     init_request token (f_size file) \<in> set tr
     \<and> filter is_put tr =
       (case video_init w (init_request token (f_size file)) of
          Rejected err \<Rightarrow> []
        | Fulfilled b \<Rightarrow>
            if init_accepted b
            then (case ib_data b of
                    None \<Rightarrow> []
                  | Some d \<Rightarrow>
                      (case fs (f_path file) of
                         None \<Rightarrow> []
                       | Some content \<Rightarrow> [put_request (upload_url d) content (f_size file)]))
            else [])"
  by (auto simp add: init_step_def after_init_def unlinkSync_def existsSync_def Let_def
        is_put_simps init_accepted_def
        split: sum.splits option.splits reply.splits if_splits prod.splits
        dest!: upload_step_puts)


lemma video_upload_trace:
  assumes tok: "getValidAccessToken w = (Inr token, tr)"
      and st: "init_step w fs upload token = (r, fs', tr')"
  shows "\<exists>rest. snd (snd (video_upload w fs (Some upload))) = tr @ tr' @ rest
                \<and> filter is_put rest = []"
  using tok st
  by (cases r) (simp_all add: video_upload_def video_upload_try_def is_put_simps)

text \<open>
  C9. For a file of \<open>s\<close> bytes, with the access token obtained, the handler sends to the
  initialisation \<^verbatim>\<open>chunk_size\<close> \<open>= min s (10 MiB)\<close> and \<^verbatim>\<open>total_chunk_count\<close>
  \<open>= \<lceil>s / chunk_size\<rceil>\<close>, which is more than 1 when \<open>s\<close> exceeds 10 MiB (for
  \<open>s = 0\<close> the quotient \<^verbatim>\<open>0 / 0\<close> is not a number); yet the handler never sends more than
  one \<^verbatim>\<open>PUT\<close>, and when the initialisation is accepted and the file is read it sends
  exactly one, with the whole file as its body and the range \<open>bytes 0-(s-1)/s\<close>.
\<close>

theorem video_upload_chunks_and_single_put:
  assumes tok: "getValidAccessToken w = (Inr token, tr)"
      and s: "s = f_size upload"
  shows
    "chunkSize s = min s (10 * 1024 * 1024)
   \<and> (0 < s \<longrightarrow> totalChunkCount s = Some \<lceil>(of_nat s :: rat) / of_nat (chunkSize s)\<rceil>)
   \<and> (s = 0 \<longrightarrow> totalChunkCount s = None)
   \<and> (10 * 1024 * 1024 < s \<longrightarrow> (\<exists>n. totalChunkCount s = Some n \<and> 1 < n))
   \<and> init_request token s =
        Post ''https://open.tiktokapis.com/v2/post/publish/inbox/video/init/''
          (Json (JObj [(''source_info'',
                        JObj [(''source'', JStr ''FILE_UPLOAD''),
                              (''video_size'', JNum (int s)),
                              (''chunk_size'', JNum (int (chunkSize s))),
                              (''total_chunk_count'', json_number (totalChunkCount s))])]))
          [(''Authorization'', ''Bearer '' @ template token),
           (''Content-Type'', ''application/json; charset=UTF-8'')]
   \<and> init_request token s \<in> set (snd (snd (video_upload w fs (Some upload))))
   \<and> length (filter is_put (snd (snd (video_upload w fs (Some upload))))) \<le> 1
   \<and> (video_init w (init_request token s) = Fulfilled b \<and> init_accepted b
        \<and> ib_data b = Some d \<and> fs (f_path upload) = Some content \<longrightarrow>
        filter is_put (snd (snd (video_upload w fs (Some upload)))) =
          [Put (upload_url d) (Buffer content)
             [(''Content-Range'',
               ''bytes 0-'' @ show_number (int s - 1) @ ''/'' @ show_number (int s)),
              (''Content-Type'', ''video/mp4''),
              (''Content-Length'', show_number (int s))]])"
proof -
  obtain r fs' tr' where st: "init_step w fs upload token = (r, fs', tr')"
    by (cases "init_step w fs upload token")
  from video_upload_trace [OF tok st] obtain rest where
    trace: "snd (snd (video_upload w fs (Some upload))) = tr @ tr' @ rest"
    and rest: "filter is_put rest = []"
    by blast
  from getValidAccessToken_no_put [of w] tok have tr: "filter is_put tr = []" by simp
  note step = init_step_trace [OF st]
  have puts: "filter is_put (snd (snd (video_upload w fs (Some upload)))) = filter is_put tr'"
    by (simp add: trace tr rest)
  have c1: "chunkSize s = min s (10 * 1024 * 1024)" by (rule chunkSize_min)
  have c2: "0 < s \<longrightarrow>
              totalChunkCount s = Some \<lceil>(of_nat s :: rat) / of_nat (chunkSize s)\<rceil>"
    by (simp add: totalChunkCount_def Math_ceil_div_def chunkSize_def)
  have c3: "s = 0 \<longrightarrow> totalChunkCount s = None"
    by (simp add: totalChunkCount_zero)
  have c4: "10 * 1024 * 1024 < s \<longrightarrow> (\<exists>n. totalChunkCount s = Some n \<and> 1 < n)"
    using totalChunkCount_many by blast
  have c5: "init_request token s =
        Post ''https://open.tiktokapis.com/v2/post/publish/inbox/video/init/''
          (Json (JObj [(''source_info'',
                        JObj [(''source'', JStr ''FILE_UPLOAD''),
                              (''video_size'', JNum (int s)),
                              (''chunk_size'', JNum (int (chunkSize s))),
                              (''total_chunk_count'', json_number (totalChunkCount s))])]))
          [(''Authorization'', ''Bearer '' @ template token),
           (''Content-Type'', ''application/json; charset=UTF-8'')]"
    by (simp add: init_request_def json_headers_def bearer_def)
  have c6: "init_request token s \<in> set (snd (snd (video_upload w fs (Some upload))))"
    using step by (simp add: trace s)
  have c7: "length (filter is_put (snd (snd (video_upload w fs (Some upload))))) \<le> 1"
    unfolding puts using step
    by (simp split: reply.split option.split)
  have c8: "video_init w (init_request token s) = Fulfilled b \<and> init_accepted b
        \<and> ib_data b = Some d \<and> fs (f_path upload) = Some content \<longrightarrow>
        filter is_put (snd (snd (video_upload w fs (Some upload)))) =
          [Put (upload_url d) (Buffer content)
             [(''Content-Range'',
               ''bytes 0-'' @ show_number (int s - 1) @ ''/'' @ show_number (int s)),
              (''Content-Type'', ''video/mp4''),
              (''Content-Length'', show_number (int s))]]"
    unfolding puts using step by (auto simp add: s put_request_def)
  from c1 c2 c3 c4 c5 c6 c7 c8 show ?thesis by (intro conjI)
qed


lemma dec_digits: "dec 2 = ''2''" "dec 3 = ''3''"
  by (simp_all add: dec.simps)

theorem video_upload_chunks_and_single_put_witness:
  "chunkSize (f_size clip) = 3
   \<and> totalChunkCount (f_size clip) = Some 1
   \<and> totalChunkCount (f_size empty_clip) = None
   \<and> chunkSize (f_size long_clip) = 10485760
   \<and> (\<exists>n. totalChunkCount (f_size long_clip) = Some n \<and> 1 < n)
   \<and> length (filter is_put (snd (snd (video_upload world_61 disk (Some long_clip))))) \<le> 1
   \<and> filter is_put (snd (snd (video_upload world_upload_ok disk (Some clip)))) =
        [Put ''https://open-upload.tiktokapis.com/video/?upload_id=1'' (Buffer [1, 2, 3])
           [(''Content-Range'', ''bytes 0-2/3''),
            (''Content-Type'', ''video/mp4''),
            (''Content-Length'', ''3'')]]"
proof -
  let ?d = "\<lparr>publish_id = ''v_inbox_file~1'',
             upload_url = ''https://open-upload.tiktokapis.com/video/?upload_id=1''\<rparr>"
  have t: "getValidAccessToken world_upload_ok = (Inr (Some ''A''), [])"
          "getValidAccessToken world_61 = (Inr (Some ''A''), [])"
    by (simp_all add: getValidAccessToken_def world_upload_ok_def world_61_def quiet_world_def
          stored_def)
  have sz: "3 = f_size clip" "26214400 = f_size long_clip" "0 = f_size empty_clip"
    by (simp_all add: clip_def long_clip_def empty_clip_def)
  have pos: "0 < (3 :: nat)" "10 * 1024 * 1024 < (26214400 :: nat)"
    by simp_all
  have pre: "video_init world_upload_ok (init_request (Some ''A'') 3) = Fulfilled init_ok
             \<and> init_accepted init_ok \<and> ib_data init_ok = Some ?d
             \<and> disk (f_path clip) = Some [1, 2, 3]"
    by (simp add: world_upload_ok_def init_accepted_def init_ok_def disk_def clip_def)
  have num: "show_number 2 = ''2''" "show_number 3 = ''3''"
    by (simp_all add: show_number_def dec_digits)
  note A = video_upload_chunks_and_single_put [OF t(1) sz(1), where fs = disk and b = init_ok and d = ?d
                 and content = "[1, 2, 3]"]
  note B = video_upload_chunks_and_single_put [OF t(2) sz(2), where fs = disk]
  note C = video_upload_chunks_and_single_put [OF t(2) sz(3), where fs = disk]
  have c3: "totalChunkCount (f_size empty_clip) = None"
    using mp [OF C [THEN conjunct2, THEN conjunct2, THEN conjunct1] refl]
    by (simp only: sz(3) [symmetric])
  have a1: "chunkSize (f_size clip) = 3"
    using A [THEN conjunct1] by (simp add: sz(1) [symmetric])
  have a2: "totalChunkCount (f_size clip) = Some 1"
    using mp [OF A [THEN conjunct2, THEN conjunct1] pos(1)]
    by (simp add: sz(1) [symmetric] chunkSize_def)
  have b1: "chunkSize (f_size long_clip) = 10485760"
    using B [THEN conjunct1] by (simp add: sz(2) [symmetric])
  have b4: "\<exists>n. totalChunkCount (f_size long_clip) = Some n \<and> 1 < n"
    using mp [OF B [THEN conjunct2, THEN conjunct2, THEN conjunct2, THEN conjunct1] pos(2)]
    by (simp only: sz(2) [symmetric])
  have b7: "length (filter is_put (snd (snd (video_upload world_61 disk (Some long_clip))))) \<le> 1"
    by (rule B [THEN conjunct2, THEN conjunct2, THEN conjunct2, THEN conjunct2,
                THEN conjunct2, THEN conjunct2, THEN conjunct1])
  have a8: "filter is_put (snd (snd (video_upload world_upload_ok disk (Some clip)))) =
        [Put ''https://open-upload.tiktokapis.com/video/?upload_id=1'' (Buffer [1, 2, 3])
           [(''Content-Range'', ''bytes 0-2/3''),
            (''Content-Type'', ''video/mp4''),
            (''Content-Length'', ''3'')]]"
    using mp [OF A [THEN conjunct2, THEN conjunct2, THEN conjunct2, THEN conjunct2,
                    THEN conjunct2, THEN conjunct2, THEN conjunct2] pre]
    by (simp add: num)
  from a1 a2 c3 b1 b4 b7 a8 show ?thesis by (intro conjI)
qed

section \<open>The token store: save and load\<close>

lemma expect_prefix: "expect p (p @ rest) = Some rest"
  by (induction p) simp_all

lemma read_string_escape: "read_string (escape s @ CHR 0x22 # rest) = Some (s, rest)"
  by (induction s) simp_all

lemma read_text_json_text: "read_text (json_text v @ rest) = Some (v, rest)"
  by (cases v) (simp_all add: read_text_def json_text_def read_string_escape)

lemma digit_value: "k < 10 \<Longrightarrow> of_char (''0123456789'' ! k) - 48 = k"
proof -
  assume "k < 10"
  then have "k \<in> {0, 1, 2, 3, 4, 5, 6, 7, 8, 9}" by auto
  then show ?thesis by auto
qed

lemma digit_is_digit: "k < 10 \<Longrightarrow> is_digit (''0123456789'' ! k)"
  unfolding is_digit_def by (rule nth_mem) simp

lemma dec_props:
  "dec n \<noteq> [] \<and> list_all is_digit (dec n)
   \<and> foldl (\<lambda>n c. 10 * n + (of_char c - 48)) 0 (dec n) = n"
proof (induction n rule: dec.induct)
  case (1 n)
  show ?case
  proof (cases "n < 10")
    case True
    then show ?thesis
      by (subst (1 2 3) dec.simps) (simp add: digit_value digit_is_digit)
  next
    case False
    have m: "n mod 10 < 10" by simp
    from False "1.IH" show ?thesis
      by (subst (1 2 3) dec.simps) (simp add: digit_value [OF m] digit_is_digit [OF m])
  qed
qed

lemma read_digits_dec:
  "\<not> is_digit c \<Longrightarrow> read_digits (dec n @ c # rest) = Some (n, c # rest)"
proof -
  assume c: "\<not> is_digit c"
  have all: "\<forall>x \<in> set (dec n). is_digit x"
    using dec_props [of n] by (simp add: list_all_iff)
  have t: "takeWhile is_digit (dec n @ c # rest) = dec n"
    using all c by (simp add: takeWhile_append2)
  have d: "dropWhile is_digit (dec n @ c # rest) = c # rest"
    using all c by (simp add: dropWhile_append2)
  show ?thesis
    using dec_props [of n] by (simp add: read_digits_def t d)
qed

lemma dec_not_minus: "dec n = d # ds \<Longrightarrow> d \<noteq> CHR ''-''"
proof -
  assume e: "dec n = d # ds"
  from dec_props [of n] e have "is_digit d" by simp
  then show ?thesis by (auto simp add: is_digit_def)
qed

lemma read_number_show:
  "\<not> is_digit c \<Longrightarrow> read_number (show_number i @ c # rest) = Some (i, c # rest)"
proof -
  assume c: "\<not> is_digit c"
  show ?thesis
  proof (cases "i < 0")
    case True
    then show ?thesis
      by (simp add: show_number_def read_number_def read_digits_dec [OF c])
  next
    case False
    obtain d ds where e: "dec (nat i) = d # ds"
      using dec_props [of "nat i"] by (cases "dec (nat i)") auto
    from dec_not_minus [OF e] have nm: "d \<noteq> CHR ''-''" .
    have "read_digits (dec (nat i) @ c # rest) = Some (nat i, c # rest)"
      by (rule read_digits_dec [OF c])
    then show ?thesis
      using False nm by (simp add: show_number_def read_number_def e)
  qed
qed

lemma token_json_roundtrip: "read_token_json (token_json r) = Some r"
proof -
  define p1 where "p1 = ''{'' @ json_key ''access_token''"
  define p2 where "p2 = '','' @ json_key ''refresh_token''"
  define p3 where "p3 = '','' @ json_key ''expires_at''"
  have nd: "\<not> is_digit CHR ''}''" by (simp add: is_digit_def)
  have shape: "token_json r =
      p1 @ json_text (access_token r) @ p2 @ json_text (refresh_token r) @ p3
         @ show_number (expires_at r) @ CHR ''}'' # []"
    by (simp add: token_json_def p1_def p2_def p3_def)
  have "read_token_json (token_json r) =
          Some \<lparr>access_token = access_token r, refresh_token = refresh_token r,
                expires_at = expires_at r\<rparr>"
    unfolding shape read_token_json_def p1_def [symmetric] p2_def [symmetric] p3_def [symmetric]
    by (simp only: expect_prefix read_text_json_text read_number_show [OF nd]
          option.case prod.case refl if_True)
  then show ?thesis by simp
qed


lemma decode_update: "map (\<lambda>b. char_of (unat b)) (update s) = s"
  by (induction s) (simp_all add: update_def unat_of_nat)

lemma toy_decrypt: "decrypt toy_cipher k (encrypt toy_cipher k m) = Some m"
  by (simp add: toy_cipher_def Let_def comp_def)


lemma parse_serialize: "parse (serialize r) = Some r"
  by (simp add: parse_def serialize_def decode_update token_json_roundtrip)

text \<open>
  C2. With a cipher that decrypts, under the configured key, what it encrypted under that
  key, \<^verbatim>\<open>save\<close> followed by \<^verbatim>\<open>load\<close> yields the record that was saved, for every
  record (tokens that are strings, or missing, and an integer time of expiry), whatever
  the file held before: the canonical form of a record is parsed back to the record.
\<close>

theorem save_load_roundtrip:
  assumes "\<forall>m. decrypt (st_cipher st) (st_key st) (encrypt (st_cipher st) (st_key st) m) = Some m"
  shows "load st (save st fs r) = Inr (Some r)"
  using assms by (simp add: load_def save_def parse_serialize)

theorem save_load_roundtrip_witness:
  "load toy_storage (save toy_storage disk (stored 1700000061000))
     = Inr (Some (stored 1700000061000))
   \<and> load toy_storage (save toy_storage disk quoted) = Inr (Some quoted)"
proof -
  have a: "\<forall>m. decrypt (st_cipher toy_storage) (st_key toy_storage)
                 (encrypt (st_cipher toy_storage) (st_key toy_storage) m) = Some m"
    by (simp add: toy_storage_def toy_decrypt)
  from save_load_roundtrip [OF a, of disk "stored 1700000061000"]
    save_load_roundtrip [OF a, of disk quoted]
  show ?thesis by (rule conjI)
qed

end
